theory Spec2Isabelle
  imports
    Main
    "HOL-Library.Word"
    "HOL-Library.Char_ord"
    "HOL-Library.List_Lexorder"
begin

unbundle bit_operations_syntax

chapter \<open>The tag encoding core of flow-metrics (server/libs/flow-metrics/tag.go)\<close>

section \<open>Machine integers\<close>

text \<open>
  Go's fixed-width integers are words. A signed value (\<open>int16\<close>, \<open>int32\<close>, \<open>int64\<close>) is the
  same word read with \<open>sint\<close>; a widening conversion of a signed value is \<open>scast\<close>, of an
  unsigned one \<open>ucast\<close>, and a narrowing conversion is \<open>ucast\<close> (truncation).
\<close>

type_synonym uint8 = "8 word"
type_synonym uint16 = "16 word"
type_synonym uint32 = "32 word"
type_synonym uint64 = "64 word"
type_synonym int16 = "16 word"
type_synonym int32 = "32 word"
type_synonym int64 = "64 word"

section \<open>The functions of Go's strconv and strings packages that tag.go calls\<close>

text \<open>
  \<open>strconv.FormatUint\<close> and \<open>strconv.FormatInt\<close> print a number in a base between 2 and 36
  with the digits \<open>0..9a..z\<close>, without leading zeros. tag.go calls them with base 10 and, in
  \<open>putTAPPort\<close>, with base 16.
\<close>

definition digit_char :: "nat \<Rightarrow> char" where
  "digit_char d = ''0123456789abcdefghijklmnopqrstuvwxyz'' ! d"

function format_nat :: "nat \<Rightarrow> nat \<Rightarrow> string" where
  "format_nat base n =
     (if base < 2 \<or> n < base then [digit_char n]
      else format_nat base (n div base) @ [digit_char (n mod base)])"
  by pat_completeness auto
termination
  by (relation "measure snd") auto

declare format_nat.simps [simp del]

definition FormatUint :: "uint64 \<Rightarrow> nat \<Rightarrow> string" where
  "FormatUint v base = format_nat base (unat v)"

definition FormatInt :: "int64 \<Rightarrow> nat \<Rightarrow> string" where
  "FormatInt v base =
     (if sint v < 0 then CHR ''-'' # format_nat base (nat (- sint v))
      else format_nat base (nat (sint v)))"

text \<open>
  \<open>strconv.ParseInt(s, 10, 64)\<close>, the only way tag.go calls it: an optional sign, then
  \<open>ParseUint\<close> on the rest, which accepts one or more decimal digits and nothing else. The
  two errors of the package are a syntax error and a range error.
\<close>

datatype NumError = ErrSyntax | ErrRange

fun ParseUint_loop :: "nat \<Rightarrow> string \<Rightarrow> NumError + nat" where
  "ParseUint_loop n [] = Inr n"
| "ParseUint_loop n (c # cs) =
     (if 48 \<le> (of_char c :: nat) \<and> (of_char c :: nat) \<le> 57 then
        (let n1 = n * 10 + (of_char c - 48)
         in if n1 > 2 ^ 64 - 1 then Inl ErrRange else ParseUint_loop n1 cs)
      else Inl ErrSyntax)"

definition ParseUint :: "string \<Rightarrow> NumError + nat" where
  "ParseUint s = (if s = [] then Inl ErrSyntax else ParseUint_loop 0 s)"

definition ParseInt :: "string \<Rightarrow> NumError + int64" where
  "ParseInt s =
     (if s = [] then Inl ErrSyntax
      else
        let neg = (hd s = CHR ''-'');
            r = (if hd s = CHR ''+'' \<or> hd s = CHR ''-'' then tl s else s)
        in case ParseUint r of
             Inl e \<Rightarrow> Inl e
           | Inr un \<Rightarrow>
               if \<not> neg \<and> un \<ge> 2 ^ 63 then Inl ErrRange
               else if neg \<and> un > 2 ^ 63 then Inl ErrRange
               else Inr (if neg then - word_of_nat un else word_of_nat un))"

text \<open>
  \<open>strings.Split(s, sep)\<close> for a separator of one byte, which is how tag.go calls it
  (\<open>"|"\<close>): the pieces between the separators, so one piece more than there are separators,
  and the single empty piece for the empty string.
\<close>

fun Split :: "string \<Rightarrow> char \<Rightarrow> string list" where
  "Split [] sep = [[]]"
| "Split (c # cs) sep =
     (if c = sep then [] # Split cs sep
      else (case Split cs sep of
              [] \<Rightarrow> [[c]]
            | p # ps \<Rightarrow> (c # p) # ps))"

section \<open>Code: the bit mask of dimensions\<close>

text \<open>
  \<open>type Code uint64\<close>. Three \<open>const\<close> blocks give one bit to each dimension, counting with
  \<open>iota\<close>; most flags share their name with the member of \<open>Field\<close> they govern, so the flags
  that do carry the suffix \<open>_Code\<close> here.
\<close>

type_synonym Code = uint64

definition IP_Code :: Code where "IP_Code = push_bit 0 0x1"
definition L3EpcID_Code :: Code where "L3EpcID_Code = push_bit 1 0x1"
definition L3Device :: Code where "L3Device = push_bit 2 0x1"
definition SubnetID_Code :: Code where "SubnetID_Code = push_bit 3 0x1"
definition RegionID_Code :: Code where "RegionID_Code = push_bit 4 0x1"
definition PodNodeID_Code :: Code where "PodNodeID_Code = push_bit 5 0x1"
definition HostID_Code :: Code where "HostID_Code = push_bit 6 0x1"
definition AZID_Code :: Code where "AZID_Code = push_bit 7 0x1"
definition PodGroupID_Code :: Code where "PodGroupID_Code = push_bit 8 0x1"
definition PodNSID_Code :: Code where "PodNSID_Code = push_bit 9 0x1"
definition PodID_Code :: Code where "PodID_Code = push_bit 10 0x1"
definition MAC_Code :: Code where "MAC_Code = push_bit 11 0x1"
definition PodClusterID_Code :: Code where "PodClusterID_Code = push_bit 12 0x1"
definition ServiceID_Code :: Code where "ServiceID_Code = push_bit 13 0x1"
definition Resource :: Code where "Resource = push_bit 14 0x1"
definition GPID_Code :: Code where "GPID_Code = push_bit 15 0x1"

definition IPPath :: Code where "IPPath = push_bit 0 0x100000"
definition L3EpcIDPath :: Code where "L3EpcIDPath = push_bit 1 0x100000"
definition L3DevicePath :: Code where "L3DevicePath = push_bit 2 0x100000"
definition SubnetIDPath :: Code where "SubnetIDPath = push_bit 3 0x100000"
definition RegionIDPath :: Code where "RegionIDPath = push_bit 4 0x100000"
definition PodNodeIDPath :: Code where "PodNodeIDPath = push_bit 5 0x100000"
definition HostIDPath :: Code where "HostIDPath = push_bit 6 0x100000"
definition AZIDPath :: Code where "AZIDPath = push_bit 7 0x100000"
definition PodGroupIDPath :: Code where "PodGroupIDPath = push_bit 8 0x100000"
definition PodNSIDPath :: Code where "PodNSIDPath = push_bit 9 0x100000"
definition PodIDPath :: Code where "PodIDPath = push_bit 10 0x100000"
definition MACPath :: Code where "MACPath = push_bit 11 0x100000"
definition PodClusterIDPath :: Code where "PodClusterIDPath = push_bit 12 0x100000"
definition ServiceIDPath :: Code where "ServiceIDPath = push_bit 13 0x100000"
definition ResourcePath :: Code where "ResourcePath = push_bit 14 0x100000"
definition GPIDPath :: Code where "GPIDPath = push_bit 15 0x100000"

text \<open>In the third block the values of \<open>iota\<close> 4 and 6 are skipped (\<open>_\<close>).\<close>

definition Direction :: Code where "Direction = push_bit 0 0x10000000000"
definition ACLGID_Code :: Code where "ACLGID_Code = push_bit 1 0x10000000000"
definition Protocol_Code :: Code where "Protocol_Code = push_bit 2 0x10000000000"
definition ServerPort_Code :: Code where "ServerPort_Code = push_bit 3 0x10000000000"
definition TAPType_Code :: Code where "TAPType_Code = push_bit 5 0x10000000000"
definition VTAPID_Code :: Code where "VTAPID_Code = push_bit 7 0x10000000000"
definition TAPSide_Code :: Code where "TAPSide_Code = push_bit 8 0x10000000000"
definition TAPPort_Code :: Code where "TAPPort_Code = push_bit 9 0x10000000000"
definition IsKeyService_Code :: Code where "IsKeyService_Code = push_bit 10 0x10000000000"
definition L7Protocol_Code :: Code where "L7Protocol_Code = push_bit 11 0x10000000000"
definition SignalSource_Code :: Code where "SignalSource_Code = push_bit 12 0x10000000000"

definition TunnelIPID_Code :: Code where "TunnelIPID_Code = push_bit 62 1"

definition HasEdgeTagField :: "Code \<Rightarrow> bool" where
  "HasEdgeTagField c \<longleftrightarrow> c AND 0xfffff00000 \<noteq> 0"

section \<open>Directions, sides and observation points\<close>

text \<open>\<open>type SideType uint8\<close>, counted as \<open>(iota + 1) << 3\<close>.\<close>

definition NodeSide :: uint8 where "NodeSide = push_bit 3 (0 + 1)"
definition HypervisorSide :: uint8 where "HypervisorSide = push_bit 3 (1 + 1)"
definition GatewayHypervisorSide :: uint8 where "GatewayHypervisorSide = push_bit 3 (2 + 1)"
definition GatewaySide :: uint8 where "GatewaySide = push_bit 3 (3 + 1)"
definition ProcessSide :: uint8 where "ProcessSide = push_bit 3 (4 + 1)"
definition AppSide :: uint8 where "AppSide = push_bit 3 (5 + 1)"

text \<open>\<open>type DirectionEnum uint8\<close> and the role derived from its three low bits.\<close>

definition CLIENT_SERVER_MASK :: uint8 where "CLIENT_SERVER_MASK = 0x7"
definition SIDE_TYPE_MASK :: uint8 where "SIDE_TYPE_MASK = 0xf8"

definition ClientToServer :: uint8 where "ClientToServer = push_bit 0 1"
definition ServerToClient :: uint8 where "ServerToClient = push_bit 1 1"
definition LocalToLocal :: uint8 where "LocalToLocal = push_bit 2 1"

definition ROLE_CLIENT :: uint8 where "ROLE_CLIENT = 0"
definition ROLE_SERVER :: uint8 where "ROLE_SERVER = 1"
definition ROLE_LOCAL :: uint8 where "ROLE_LOCAL = 2"
definition ROLE_REST :: uint8 where "ROLE_REST = 3"

definition ToRole :: "uint8 \<Rightarrow> uint8" where
  "ToRole d =
     (if d AND CLIENT_SERVER_MASK = ClientToServer then ROLE_CLIENT
      else if d AND CLIENT_SERVER_MASK = ServerToClient then ROLE_SERVER
      else if d AND CLIENT_SERVER_MASK = LocalToLocal then ROLE_LOCAL
      else ROLE_REST)"

text \<open>\<open>type TAPSideEnum uint8\<close>: a direction bit combined with a side type.\<close>

definition Client :: uint8 where "Client = push_bit 0 1"
definition Server :: uint8 where "Server = push_bit 1 1"
definition Local :: uint8 where "Local = push_bit 2 1"
definition ClientNode :: uint8 where "ClientNode = Client OR NodeSide"
definition ServerNode :: uint8 where "ServerNode = Server OR NodeSide"
definition ClientHypervisor :: uint8 where "ClientHypervisor = Client OR HypervisorSide"
definition ServerHypervisor :: uint8 where "ServerHypervisor = Server OR HypervisorSide"
definition ClientGatewayHypervisor :: uint8 where
  "ClientGatewayHypervisor = Client OR GatewayHypervisorSide"
definition ServerGatewayHypervisor :: uint8 where
  "ServerGatewayHypervisor = Server OR GatewayHypervisorSide"
definition ClientGateway :: uint8 where "ClientGateway = Client OR GatewaySide"
definition ServerGateway :: uint8 where "ServerGateway = Server OR GatewaySide"
definition ClientProcess :: uint8 where "ClientProcess = Client OR ProcessSide"
definition ServerProcess :: uint8 where "ServerProcess = Server OR ProcessSide"
definition ClientApp :: uint8 where "ClientApp = Client OR AppSide"
definition ServerApp :: uint8 where "ServerApp = Server OR AppSide"
definition App :: uint8 where "App = AppSide"
definition Rest :: uint8 where "Rest = 0"

text \<open>
  \<open>var TAPSideEnumsString = []string{Rest: "rest", Client: "c", ...}\<close>: a slice literal with
  keyed elements. Its length is the largest key plus one, that is \<open>ServerApp + 1 = 51\<close>, and
  the elements without a key are the empty string.
\<close>

definition TAPSideEnumsString :: "string list" where
  "TAPSideEnumsString =
     (replicate 51 [])
       [unat Rest := ''rest'',
        unat Client := ''c'',
        unat Server := ''s'',
        unat Local := ''local'',
        unat ClientNode := ''c-nd'',
        unat ServerNode := ''s-nd'',
        unat ClientHypervisor := ''c-hv'',
        unat ServerHypervisor := ''s-hv'',
        unat ClientGatewayHypervisor := ''c-gw-hv'',
        unat ServerGatewayHypervisor := ''s-gw-hv'',
        unat ClientGateway := ''c-gw'',
        unat ServerGateway := ''s-gw'',
        unat ClientProcess := ''c-p'',
        unat ServerProcess := ''s-p'',
        unat ClientApp := ''c-app'',
        unat ServerApp := ''s-app'',
        unat App := ''app'']"

text \<open>
  \<open>func (s TAPSideEnum) String() string { return TAPSideEnumsString[s] }\<close>. Indexing a
  slice beyond its length panics in Go: the result is \<open>None\<close> then.
\<close>

definition TAPSideEnum_String :: "uint8 \<Rightarrow> string option" where
  "TAPSideEnum_String s =
     (if unat s < length TAPSideEnumsString then Some (TAPSideEnumsString ! unat s) else None)"

section \<open>Field and Tag\<close>

text \<open>
  A byte slice (\<open>net.IP\<close>, that is \<open>[]byte\<close>) is a reference into a store of byte arrays,
  or nil. The store is a list of arrays and a reference is an index into it; \<open>make\<close> appends
  a new array, so that a fresh reference differs from every reference in use. Every slice of
  tag.go spans its whole array.
\<close>

type_synonym heap = "uint8 list list"
type_synonym net_IP = "nat option"

definition bytes_of :: "heap \<Rightarrow> net_IP \<Rightarrow> uint8 list" where
  "bytes_of h ip = (case ip of None \<Rightarrow> [] | Some a \<Rightarrow> if a < length h then h ! a else [])"

definition make_bytes :: "heap \<Rightarrow> nat \<Rightarrow> heap \<times> nat" where
  "make_bytes h n = (h @ [replicate n 0], length h)"

text \<open>\<open>copy(dst, src)\<close> on a slice of the store: as many bytes as both hold.\<close>

definition copy_bytes :: "heap \<Rightarrow> nat \<Rightarrow> uint8 list \<Rightarrow> heap" where
  "copy_bytes h a src =
     (if a < length h
      then h[a := take (min (length (h ! a)) (length src)) src
                  @ drop (min (length (h ! a)) (length src)) (h ! a)]
      else h)"

text \<open>An assignment \<open>s[i] = v\<close> to a byte of a slice (in range).\<close>

definition set_byte :: "heap \<Rightarrow> nat \<Rightarrow> nat \<Rightarrow> uint8 \<Rightarrow> heap" where
  "set_byte h a i v = h[a := (h ! a)[i := v]]"

text \<open>
  \<open>type Field struct\<close>, member by member. \<open>DeviceType\<close>, \<open>layers.IPProtocol\<close>,
  \<open>datatype.NATSource\<close>, \<open>datatype.TunnelType\<close>, \<open>datatype.L7Protocol\<close>, \<open>TAPSideEnum\<close>
  and \<open>TAPTypeEnum\<close> are \<open>uint8\<close>, \<open>datatype.TapPort\<close> is \<open>uint64\<close>.
\<close>

record Field =
  GlobalThreadID :: uint8
  IP6 :: net_IP
  MAC :: uint64
  IP :: uint32
  L3EpcID :: int32
  L3DeviceID :: uint32
  L3DeviceType :: uint8
  RegionID :: uint16
  SubnetID :: uint16
  HostID :: uint16
  PodNodeID :: uint32
  AZID :: uint16
  PodGroupID :: uint32
  PodNSID :: uint16
  PodID :: uint32
  PodClusterID :: uint16
  ServiceID :: uint32
  AutoInstanceID :: uint32
  AutoInstanceType :: uint8
  AutoServiceID :: uint32
  AutoServiceType :: uint8
  GPID :: uint32
  MAC1 :: uint64
  IP61 :: net_IP
  IP1 :: uint32
  L3EpcID1 :: int32
  L3DeviceID1 :: uint32
  L3DeviceType1 :: uint8
  RegionID1 :: uint16
  SubnetID1 :: uint16
  HostID1 :: uint16
  PodNodeID1 :: uint32
  AZID1 :: uint16
  PodGroupID1 :: uint32
  PodNSID1 :: uint16
  PodID1 :: uint32
  PodClusterID1 :: uint16
  ServiceID1 :: uint32
  AutoInstanceID1 :: uint32
  AutoInstanceType1 :: uint8
  AutoServiceID1 :: uint32
  AutoServiceType1 :: uint8
  GPID1 :: uint32
  ACLGID :: uint16
  Role :: uint8
  Protocol :: uint8
  ServerPort :: uint16
  VTAPID :: uint16
  OrgId :: uint16
  TeamID :: uint16
  TAPPort :: uint64
  TapPort :: uint32
  TapPortType :: uint8
  NatSource :: uint8
  TunnelType :: uint8
  TAPSide :: uint8
  TAPSideStr :: string
  TAPType :: uint8
  IsIPv4 :: uint8
  IsKeyService :: uint8
  L7Protocol :: uint8
  AppService :: string
  AppInstance :: string
  Endpoint :: string
  BizType :: uint8
  SignalSource :: uint16
  TagSource :: uint8
  TagSource1 :: uint8
  TunnelIPID :: uint16

text \<open>
  \<open>type Tag struct { Field; Code; id string }\<close>: the embedded \<open>Field\<close> promotes its
  members to \<open>Tag\<close>, which a record extension does as well. The member \<open>id\<close> is \<open>id_tag\<close>
  here.
\<close>

record Tag = Field +
  Code :: Code
  id_tag :: string

text \<open>The zero value \<open>Field{}\<close> and the zero value \<open>Tag{}\<close>.\<close>

definition Field_zero :: Field where
  "Field_zero =
     \<lparr> GlobalThreadID = 0, IP6 = None, MAC = 0, IP = 0, L3EpcID = 0, L3DeviceID = 0,
       L3DeviceType = 0, RegionID = 0, SubnetID = 0, HostID = 0, PodNodeID = 0, AZID = 0,
       PodGroupID = 0, PodNSID = 0, PodID = 0, PodClusterID = 0, ServiceID = 0,
       AutoInstanceID = 0, AutoInstanceType = 0, AutoServiceID = 0, AutoServiceType = 0,
       GPID = 0,
       MAC1 = 0, IP61 = None, IP1 = 0, L3EpcID1 = 0, L3DeviceID1 = 0,
       L3DeviceType1 = 0, RegionID1 = 0, SubnetID1 = 0, HostID1 = 0, PodNodeID1 = 0, AZID1 = 0,
       PodGroupID1 = 0, PodNSID1 = 0, PodID1 = 0, PodClusterID1 = 0, ServiceID1 = 0,
       AutoInstanceID1 = 0, AutoInstanceType1 = 0, AutoServiceID1 = 0, AutoServiceType1 = 0,
       GPID1 = 0,
       ACLGID = 0, Role = 0, Protocol = 0, ServerPort = 0, VTAPID = 0, OrgId = 0, TeamID = 0,
       TAPPort = 0, TapPort = 0, TapPortType = 0, NatSource = 0, TunnelType = 0, TAPSide = 0,
       TAPSideStr = [], TAPType = 0, IsIPv4 = 0, IsKeyService = 0, L7Protocol = 0,
       AppService = [], AppInstance = [], Endpoint = [], BizType = 0, SignalSource = 0,
       TagSource = 0, TagSource1 = 0, TunnelIPID = 0 \<rparr>"

definition Tag_zero :: Tag where
  "Tag_zero = Field.extend Field_zero \<lparr> Code = 0, id_tag = [] \<rparr>"

section \<open>The metric tables\<close>

text \<open>\<open>type MetricsTableID uint8\<close>, counted with \<open>iota\<close>.\<close>

type_synonym MetricsTableID = uint8

definition NETWORK_1M :: MetricsTableID where "NETWORK_1M = 0"
definition NETWORK_MAP_1M :: MetricsTableID where "NETWORK_MAP_1M = 1"
definition APPLICATION_1M :: MetricsTableID where "APPLICATION_1M = 2"
definition APPLICATION_MAP_1M :: MetricsTableID where "APPLICATION_MAP_1M = 3"
definition TRAFFIC_POLICY_1M :: MetricsTableID where "TRAFFIC_POLICY_1M = 4"
definition NETWORK_1S :: MetricsTableID where "NETWORK_1S = 5"
definition NETWORK_MAP_1S :: MetricsTableID where "NETWORK_MAP_1S = 6"
definition APPLICATION_1S :: MetricsTableID where "APPLICATION_1S = 7"
definition APPLICATION_MAP_1S :: MetricsTableID where "APPLICATION_MAP_1S = 8"
definition METRICS_TABLE_ID_MAX :: MetricsTableID where "METRICS_TABLE_ID_MAX = 9"

text \<open>
  \<open>var metricsTableNames = []string{NETWORK_1M: "network.1m", ...}\<close>: every key from
  \<open>NETWORK_1M\<close> to \<open>APPLICATION_MAP_1S\<close> is given, in this order.
\<close>

definition metricsTableNames :: "string list" where
  "metricsTableNames =
     [''network.1m'', ''network_map.1m'',
      ''application.1m'', ''application_map.1m'',
      ''traffic_policy.1m'',
      ''network.1s'', ''network_map.1s'',
      ''application.1s'', ''application_map.1s'']"

text \<open>\<open>func (i MetricsTableID) TableName() string\<close>; \<open>None\<close> is the panic of the index.\<close>

definition TableName :: "MetricsTableID \<Rightarrow> string option" where
  "TableName i =
     (if unat i < length metricsTableNames then Some (metricsTableNames ! unat i) else None)"

text \<open>
  \<open>func MetricsTableNameToID(name string) MetricsTableID\<close>: the loop over the names with
  their index, and \<open>METRICS_TABLE_ID_MAX\<close> after it.
\<close>

fun MetricsTableNameToID_from :: "nat \<Rightarrow> string list \<Rightarrow> string \<Rightarrow> MetricsTableID" where
  "MetricsTableNameToID_from i [] name = METRICS_TABLE_ID_MAX"
| "MetricsTableNameToID_from i (n # ns) name =
     (if n = name then of_nat i else MetricsTableNameToID_from (Suc i) ns name)"

definition MetricsTableNameToID :: "string \<Rightarrow> MetricsTableID" where
  "MetricsTableNameToID name = MetricsTableNameToID_from 0 metricsTableNames name"

definition BaseCode :: Code where
  "BaseCode = AZID_Code OR HostID_Code OR IP_Code OR L3Device OR L3EpcID_Code
     OR PodClusterID_Code OR PodGroupID_Code OR PodID_Code OR PodNodeID_Code OR PodNSID_Code
     OR RegionID_Code OR SubnetID_Code OR TAPType_Code OR VTAPID_Code OR ServiceID_Code
     OR Resource OR GPID_Code OR SignalSource_Code"

definition BasePathCode :: Code where
  "BasePathCode = AZIDPath OR HostIDPath OR IPPath OR L3DevicePath OR L3EpcIDPath
     OR PodClusterIDPath OR PodGroupIDPath OR PodIDPath OR PodNodeIDPath OR PodNSIDPath
     OR RegionIDPath OR SubnetIDPath OR TAPSide_Code OR TAPType_Code OR VTAPID_Code
     OR ServiceIDPath OR ResourcePath OR GPIDPath OR SignalSource_Code"

definition BasePortCode :: Code where
  "BasePortCode = Protocol_Code OR ServerPort_Code OR IsKeyService_Code"

definition NETWORK :: Code where
  "NETWORK = BaseCode OR BasePortCode OR Direction"
definition NETWORK_MAP :: Code where
  "NETWORK_MAP = BasePathCode OR BasePortCode OR TAPPort_Code"
definition APPLICATION :: Code where
  "APPLICATION = BaseCode OR BasePortCode OR Direction OR L7Protocol_Code"
definition APPLICATION_MAP :: Code where
  "APPLICATION_MAP = BasePathCode OR BasePortCode OR TAPPort_Code OR L7Protocol_Code"
definition TRAFFIC_POLICY :: Code where
  "TRAFFIC_POLICY = ACLGID_Code OR TunnelIPID_Code OR VTAPID_Code"

text \<open>\<open>var metricsTableCodes = []Code{NETWORK_1M: NETWORK, ...}\<close>, every key given.\<close>

definition metricsTableCodes :: "Code list" where
  "metricsTableCodes =
     [NETWORK, NETWORK_MAP,
      APPLICATION, APPLICATION_MAP,
      TRAFFIC_POLICY,
      NETWORK, NETWORK_MAP,
      APPLICATION, APPLICATION_MAP]"

definition TableCode :: "MetricsTableID \<Rightarrow> Code option" where
  "TableCode i =
     (if unat i < length metricsTableCodes then Some (metricsTableCodes ! unat i) else None)"

text \<open>
  \<open>func (t *Tag) TableID(isSecond bool) (uint8, error)\<close>. The error of \<open>fmt.Errorf\<close> is
  a value that holds what the message prints: the code of the tag and \<open>isSecond\<close>. The
  result is the pair that Go returns.
\<close>

datatype TableError = NotMatchTable Code bool

fun TableID_from :: "Code \<Rightarrow> bool \<Rightarrow> nat \<Rightarrow> Code list \<Rightarrow> uint8 \<times> TableError option" where
  "TableID_from c isSecond i [] = (0, Some (NotMatchTable c isSecond))"
| "TableID_from c isSecond i (code # codes) =
     (if (c AND NOT MAC_Code) AND NOT MACPath = code then
        (if isSecond then (of_nat i + NETWORK_1S, None) else (of_nat i, None))
      else TableID_from c isSecond (Suc i) codes)"

definition TableID :: "Tag \<Rightarrow> bool \<Rightarrow> uint8 \<times> TableError option" where
  "TableID t isSecond = TableID_from (Code t) isSecond 0 metricsTableCodes"

section \<open>Sentinel identifiers and lists of numbers\<close>

definition ID_OTHER :: int where "ID_OTHER = - 1"
definition ID_INTERNET :: int where "ID_INTERNET = - 2"

text \<open>
  \<open>func marshalUint16WithSpecialID(v int16) string\<close>: the two cases of the \<open>switch\<close> fall
  into the signed print; \<open>uint64(v)\<close> extends the sign before the mask \<open>math.MaxUint16\<close>.
\<close>

definition marshalUint16WithSpecialID :: "int16 \<Rightarrow> string" where
  "marshalUint16WithSpecialID v =
     (if sint v = ID_OTHER \<or> sint v = ID_INTERNET then FormatInt (scast v) 10
      else FormatUint ((scast v :: uint64) AND 0xFFFF) 10)"

text \<open>
  \<open>func unmarshalUint16WithSpecialID(s string) (int16, error)\<close>: the pair that Go
  returns, \<open>(-1, err)\<close> on an error.
\<close>

definition unmarshalUint16WithSpecialID :: "string \<Rightarrow> int16 \<times> NumError option" where
  "unmarshalUint16WithSpecialID s =
     (case ParseInt s of
        Inl e \<Rightarrow> (- 1, Some e)
      | Inr i \<Rightarrow> (ucast i, None))"

definition MarshalInt32WithSpecialID :: "int32 \<Rightarrow> int32" where
  "MarshalInt32WithSpecialID v =
     (if sint v > 0 \<or> sint v = ID_OTHER \<or> sint v = ID_INTERNET then v
      else ucast ((scast v :: uint64) AND 0xFFFF))"

definition unmarshalInt32WithSpecialID :: "int32 \<Rightarrow> int16" where
  "unmarshalInt32WithSpecialID v = ucast v"

text \<open>
  \<open>func marshalUint16s(vs []uint16) string\<close>: every value in decimal, and a \<open>"|"\<close> after
  it where \<open>i < len(vs)-1\<close>.
\<close>

definition marshalUint16s :: "uint16 list \<Rightarrow> string" where
  "marshalUint16s vs =
     concat (map (\<lambda>(i, v). FormatUint (ucast v) 10
                     @ (if int i < int (length vs) - 1 then ''|'' else []))
                 (enumerate 0 vs))"

text \<open>
  \<open>func unmarshalUint16s(s string) ([]uint16, error)\<close>: the loop over the pieces of
  \<open>strings.Split(s, "|")\<close>; at the first piece that does not parse it returns the values
  read so far together with the error.
\<close>

fun unmarshalUint16s_loop :: "uint16 list \<Rightarrow> string list \<Rightarrow> uint16 list \<times> NumError option" where
  "unmarshalUint16s_loop uint16s [] = (uint16s, None)"
| "unmarshalUint16s_loop uint16s (v # vs) =
     (case ParseInt v of
        Inl e \<Rightarrow> (uint16s, Some e)
      | Inr i \<Rightarrow> unmarshalUint16s_loop (uint16s @ [ucast i]) vs)"

definition unmarshalUint16s :: "string \<Rightarrow> uint16 list \<times> NumError option" where
  "unmarshalUint16s s = unmarshalUint16s_loop [] (Split s CHR ''|'')"

section \<open>The text encoder\<close>

subsection \<open>Addresses as text\<close>

text \<open>
  \<open>net.IP.String()\<close> of Go's standard library: \<open><nil>\<close> for an empty slice, a question
  mark and the bytes in hexadecimal for a length other than 4 and 16, the dotted decimal
  form for four bytes and for an IPv4 address mapped into sixteen, and the IPv6 text for any
  other sixteen bytes. The IPv6 text (with its compression of zeros) is not modelled: it is
  the parameter \<open>ip6text\<close> of everything that prints an address.
\<close>

definition hexString :: "uint8 list \<Rightarrow> string" where
  "hexString bs = concat (map (\<lambda>b. [digit_char (unat b div 16), digit_char (unat b mod 16)]) bs)"

definition To4 :: "uint8 list \<Rightarrow> uint8 list option" where
  "To4 ip =
     (if length ip = 4 then Some ip
      else if length ip = 16 \<and> list_all (\<lambda>b. b = 0) (take 10 ip)
              \<and> ip ! 10 = 0xff \<and> ip ! 11 = 0xff then Some (drop 12 ip)
      else None)"

definition dotted :: "uint8 list \<Rightarrow> string" where
  "dotted p4 =
     FormatUint (ucast (p4 ! 0)) 10 @ ''.'' @ FormatUint (ucast (p4 ! 1)) 10 @ ''.''
     @ FormatUint (ucast (p4 ! 2)) 10 @ ''.'' @ FormatUint (ucast (p4 ! 3)) 10"

definition IP_String :: "(uint8 list \<Rightarrow> string) \<Rightarrow> uint8 list \<Rightarrow> string" where
  "IP_String ip6text ip =
     (if length ip = 0 then ''<nil>''
      else if length ip \<noteq> 4 \<and> length ip \<noteq> 16 then CHR ''?'' # hexString ip
      else (case To4 ip of Some p4 \<Rightarrow> dotted p4 | None \<Rightarrow> ip6text ip))"

text \<open>
  Modelled from the spec: \<open>utils.IpFromUint32\<close> (server/libs/utils, not among the sources),
  which the encoder applies to \<open>t.IP\<close> and \<open>t.IP1\<close>; the spec has the dotted form
  "derived from the big-endian 32-bit value", so the address is the four bytes of the
  number, most significant first.
\<close>

definition IpFromUint32 :: "uint32 \<Rightarrow> uint8 list" where
  "IpFromUint32 ipInt =
     [ucast (drop_bit 24 ipInt), ucast (drop_bit 16 ipInt), ucast (drop_bit 8 ipInt), ucast ipInt]"

subsection \<open>Writing into the buffer\<close>

text \<open>
  \<open>MarshalTo\<close> is a straight line of statements \<open>offset += copy(b[offset:], s)\<close>, some of
  them under a test of a bit of \<open>t.Code\<close>, and one call of \<open>putTAPPort\<close>. The model keeps
  the statements as a list of steps, in the order of the source, and runs them on the
  buffer and the offset. \<open>None\<close> is a panic.

  \<open>copy_at b offset s\<close> is the buffer after \<open>copy(b[offset:], s)\<close>, which copies as many
  bytes as both sides hold; \<open>b[offset:]\<close> panics when \<open>offset\<close> is beyond the length of
  \<open>b\<close>.
\<close>

definition copy_at :: "string \<Rightarrow> nat \<Rightarrow> string \<Rightarrow> string" where
  "copy_at b offset s =
     (let n = min (length b - offset) (length s)
      in take offset b @ take n s @ drop (offset + n) b)"

definition TAP_PORT_STR_LEN :: nat where "TAP_PORT_STR_LEN = 8"

text \<open>
  \<open>func putTAPPort(bs []byte, tapPort uint64) int\<close>, called with \<open>bs = b[offset:]\<close>:
  eight zeros, then the hexadecimal digits right-aligned over them, or the last eight
  digits when there are more. It returns 8 whatever was copied. \<open>bs[8-len(s):]\<close> panics
  when \<open>bs\<close> is shorter than that.
\<close>

definition putTAPPort :: "string \<Rightarrow> nat \<Rightarrow> uint64 \<Rightarrow> (string \<times> nat) option" where
  "putTAPPort b offset tapPort =
     (let b1 = copy_at b offset ''00000000'';
          s = FormatUint tapPort 16
      in if TAP_PORT_STR_LEN \<ge> length s then
           (if TAP_PORT_STR_LEN - length s > length b - offset then None
            else Some (copy_at b1 (offset + (TAP_PORT_STR_LEN - length s)) s, TAP_PORT_STR_LEN))
         else Some (copy_at b1 offset (drop (length s - TAP_PORT_STR_LEN) s), TAP_PORT_STR_LEN))"

datatype step = Copy string | PutTAPPort uint64

fun exec_step :: "step \<Rightarrow> string \<times> nat \<Rightarrow> (string \<times> nat) option" where
  "exec_step (Copy s) (b, offset) =
     (if offset > length b then None
      else Some (copy_at b offset s, offset + min (length b - offset) (length s)))"
| "exec_step (PutTAPPort v) (b, offset) =
     (if offset > length b then None
      else (case putTAPPort b offset v of
              None \<Rightarrow> None
            | Some (b', n) \<Rightarrow> Some (b', offset + n)))"

fun run_steps :: "step list \<Rightarrow> string \<times> nat \<Rightarrow> (string \<times> nat) option" where
  "run_steps [] st = Some st"
| "run_steps (x # xs) st =
     (case exec_step x st of None \<Rightarrow> None | Some st' \<Rightarrow> run_steps xs st')"

subsection \<open>The statements of MarshalTo\<close>

text \<open>
  The body of \<open>func (t *Tag) MarshalTo(b []byte) int\<close> in five parts, block by block in
  the order of the source (lines 600 to 650, 651 to 711, 712 to 797, 799 to 871 and 872 to
  915). The store \<open>h\<close> holds the bytes of \<open>t.IP6\<close> and \<open>t.IP61\<close>. The blocks of the bits
  \<open>MAC\<close> and \<open>MACPath\<close> are empty in the source: their statements are commented out.
\<close>

definition MarshalTo_steps_1 :: "(uint8 list \<Rightarrow> string) \<Rightarrow> heap \<Rightarrow> Tag \<Rightarrow> step list" where
  "MarshalTo_steps_1 ip6text h t =
     (if GlobalThreadID t \<noteq> 0 then
        [Copy '',_tid='',
         Copy (FormatUint (ucast (GlobalThreadID t)) 10)]
      else [])
     @ (if Code t AND ACLGID_Code \<noteq> 0 then
          [Copy '',acl_gid='',
           Copy (FormatUint (ucast (ACLGID t)) 10)]
        else [])
     @ (if Code t AND AZID_Code \<noteq> 0 then
          [Copy '',az_id='',
           Copy (FormatUint (ucast (AZID t)) 10)]
        else [])
     @ (if Code t AND AZIDPath \<noteq> 0 then
          [Copy '',az_id_0='',
           Copy (FormatUint (ucast (AZID t)) 10),
           Copy '',az_id_1='',
           Copy (FormatUint (ucast (AZID1 t)) 10)]
        else [])
     @ (if Code t AND Direction \<noteq> 0 then
          (if Role t = ROLE_CLIENT then
             [Copy '',role=c2s'']
           else if Role t = ROLE_SERVER then
             [Copy '',role=s2c'']
           else if Role t = ROLE_LOCAL then
             [Copy '',role=local'']
           else [Copy '',role=rest''])
        else [])
     @ (if Code t AND GPID_Code \<noteq> 0 then
          [Copy '',gprocess_id='',
           Copy (FormatUint (ucast (GPID t)) 10)]
        else [])
     @ (if Code t AND GPIDPath \<noteq> 0 then
          [Copy '',gprocess_id_0='',
           Copy (FormatUint (ucast (GPID t)) 10),
           Copy '',gprocess_id_1='',
           Copy (FormatUint (ucast (GPID1 t)) 10)]
        else [])
     @ (if Code t AND HostID_Code \<noteq> 0 then
          [Copy '',host_id='',
           Copy (FormatUint (ucast (HostID t)) 10)]
        else [])
     @ (if Code t AND HostIDPath \<noteq> 0 then
          [Copy '',host_id_0='',
           Copy (FormatUint (ucast (HostID t)) 10),
           Copy '',host_id_1='',
           Copy (FormatUint (ucast (HostID1 t)) 10)]
        else [])"

definition MarshalTo_steps_2 :: "(uint8 list \<Rightarrow> string) \<Rightarrow> heap \<Rightarrow> Tag \<Rightarrow> step list" where
  "MarshalTo_steps_2 ip6text h t =
     (if Code t AND IP_Code \<noteq> 0 then
        (if IsIPv4 t = 0 then
           [Copy '',ip='',
            Copy (IP_String ip6text (bytes_of h (IP6 t))),
            Copy '',ip_version=6'']
         else [Copy '',ip='',
               Copy (IP_String ip6text (IpFromUint32 (IP t))),
               Copy '',ip_version=4''])
      else [])
     @ (if Code t AND IPPath \<noteq> 0 then
          (if IsIPv4 t = 0 then
             [Copy '',ip_0='',
              Copy (IP_String ip6text (bytes_of h (IP6 t))),
              Copy '',ip_1='',
              Copy (IP_String ip6text (bytes_of h (IP61 t))),
              Copy '',is_version=6'']
           else [Copy '',ip_0='',
                 Copy (IP_String ip6text (IpFromUint32 (IP t))),
                 Copy '',ip_1='',
                 Copy (IP_String ip6text (IpFromUint32 (IP1 t))),
                 Copy '',ip_version=4''])
        else [])
     @ (if Code t AND IsKeyService_Code \<noteq> 0 then
          (if IsKeyService t = 1 then
             [Copy '',is_key_service=1'']
           else [Copy '',is_key_service=0''])
        else [])
     @ (if Code t AND L3Device \<noteq> 0 then
          [Copy '',l3_device_id='',
           Copy (FormatUint (ucast (L3DeviceID t)) 10),
           Copy '',l3_device_type='',
           Copy (FormatUint (ucast (L3DeviceType t)) 10)]
        else [])
     @ (if Code t AND L3DevicePath \<noteq> 0 then
          [Copy '',l3_device_id_0='',
           Copy (FormatUint (ucast (L3DeviceID t)) 10),
           Copy '',l3_device_id_1='',
           Copy (FormatUint (ucast (L3DeviceID1 t)) 10),
           Copy '',l3_device_type_0='',
           Copy (FormatUint (ucast (L3DeviceType t)) 10),
           Copy '',l3_device_type_1='',
           Copy (FormatUint (ucast (L3DeviceType1 t)) 10)]
        else [])
     @ (if Code t AND L3EpcID_Code \<noteq> 0 then
          [Copy '',l3_epc_id='',
           Copy (FormatInt (scast (L3EpcID t)) 10)]
        else [])
     @ (if Code t AND L3EpcIDPath \<noteq> 0 then
          [Copy '',l3_epc_id_0='',
           Copy (FormatInt (scast (L3EpcID t)) 10),
           Copy '',l3_epc_id_1='',
           Copy (FormatInt (scast (L3EpcID1 t)) 10)]
        else [])"

definition MarshalTo_steps_3 :: "(uint8 list \<Rightarrow> string) \<Rightarrow> heap \<Rightarrow> Tag \<Rightarrow> step list" where
  "MarshalTo_steps_3 ip6text h t =
     (if Code t AND L7Protocol_Code \<noteq> 0 then
        [Copy '',l7_protocol='',
         Copy (FormatUint (ucast (L7Protocol t)) 10),
         Copy ('',app_service='' @ AppService t),
         Copy ('',app_instance='' @ AppInstance t),
         Copy ('',endpoint='' @ Endpoint t),
         Copy '',biz_type='',
         Copy (FormatUint (ucast (BizType t)) 10)]
      else [])
     @ (if Code t AND MAC_Code \<noteq> 0 then
          []
        else [])
     @ (if Code t AND MACPath \<noteq> 0 then
          []
        else [])
     @ (if Code t AND PodClusterID_Code \<noteq> 0 then
          [Copy '',pod_cluster_id='',
           Copy (FormatUint (ucast (PodClusterID t)) 10)]
        else [])
     @ (if Code t AND PodClusterIDPath \<noteq> 0 then
          [Copy '',pod_cluster_id_0='',
           Copy (FormatUint (ucast (PodClusterID t)) 10),
           Copy '',pod_cluster_id_1='',
           Copy (FormatUint (ucast (PodClusterID1 t)) 10)]
        else [])
     @ (if Code t AND PodGroupID_Code \<noteq> 0 then
          [Copy '',pod_group_id='',
           Copy (FormatUint (ucast (PodGroupID t)) 10)]
        else [])
     @ (if Code t AND PodGroupIDPath \<noteq> 0 then
          [Copy '',pod_group_id_0='',
           Copy (FormatUint (ucast (PodGroupID t)) 10),
           Copy '',pod_group_id_1='',
           Copy (FormatUint (ucast (PodGroupID1 t)) 10)]
        else [])
     @ (if Code t AND PodID_Code \<noteq> 0 then
          [Copy '',pod_id='',
           Copy (FormatUint (ucast (PodID t)) 10)]
        else [])
     @ (if Code t AND PodIDPath \<noteq> 0 then
          [Copy '',pod_id_0='',
           Copy (FormatUint (ucast (PodID t)) 10),
           Copy '',pod_id_1='',
           Copy (FormatUint (ucast (PodID1 t)) 10)]
        else [])
     @ (if Code t AND PodNodeID_Code \<noteq> 0 then
          [Copy '',pod_node_id='',
           Copy (FormatUint (ucast (PodNodeID t)) 10)]
        else [])
     @ (if Code t AND PodNodeIDPath \<noteq> 0 then
          [Copy '',pod_node_id_0='',
           Copy (FormatUint (ucast (PodNodeID t)) 10),
           Copy '',pod_node_id_1='',
           Copy (FormatUint (ucast (PodNodeID1 t)) 10)]
        else [])
     @ (if Code t AND PodNSID_Code \<noteq> 0 then
          [Copy '',pod_ns_id='',
           Copy (FormatUint (ucast (PodNSID t)) 10)]
        else [])
     @ (if Code t AND PodNSIDPath \<noteq> 0 then
          [Copy '',pod_ns_id_0='',
           Copy (FormatUint (ucast (PodNSID t)) 10),
           Copy '',pod_ns_id_1='',
           Copy (FormatUint (ucast (PodNSID1 t)) 10)]
        else [])
     @ (if Code t AND Protocol_Code \<noteq> 0 then
          [Copy '',protocol='',
           Copy (FormatUint (ucast (Protocol t)) 10)]
        else [])"

definition MarshalTo_steps_4 :: "(uint8 list \<Rightarrow> string) \<Rightarrow> heap \<Rightarrow> Tag \<Rightarrow> step list" where
  "MarshalTo_steps_4 ip6text h t =
     (if Code t AND RegionID_Code \<noteq> 0 then
        [Copy '',region_id='',
         Copy (FormatUint (ucast (RegionID t)) 10)]
      else [])
     @ (if Code t AND RegionIDPath \<noteq> 0 then
          [Copy '',region_id_0='',
           Copy (FormatUint (ucast (RegionID t)) 10),
           Copy '',region_id_1='',
           Copy (FormatUint (ucast (RegionID1 t)) 10)]
        else [])
     @ (if Code t AND Resource \<noteq> 0 then
          [Copy '',auto_instance_id='',
           Copy (FormatUint (ucast (AutoInstanceID t)) 10),
           Copy '',auto_instance_type='',
           Copy (FormatUint (ucast (AutoInstanceType t)) 10),
           Copy '',auto_service_id='',
           Copy (FormatUint (ucast (AutoServiceID t)) 10),
           Copy '',auto_service_type='',
           Copy (FormatUint (ucast (AutoServiceType t)) 10)]
        else [])
     @ (if Code t AND ResourcePath \<noteq> 0 then
          [Copy '',auto_instance_id_0='',
           Copy (FormatUint (ucast (AutoInstanceID t)) 10),
           Copy '',auto_instance_type_0='',
           Copy (FormatUint (ucast (AutoInstanceType t)) 10),
           Copy '',auto_service_id_0='',
           Copy (FormatUint (ucast (AutoServiceID t)) 10),
           Copy '',auto_service_type_0='',
           Copy (FormatUint (ucast (AutoServiceType t)) 10),
           Copy '',auto_instance_id_1='',
           Copy (FormatUint (ucast (AutoInstanceID1 t)) 10),
           Copy '',auto_instance_type_1='',
           Copy (FormatUint (ucast (AutoInstanceType1 t)) 10),
           Copy '',auto_service_id_1='',
           Copy (FormatUint (ucast (AutoServiceID1 t)) 10),
           Copy '',auto_service_type_1='',
           Copy (FormatUint (ucast (AutoServiceType1 t)) 10)]
        else [])
     @ (if Code t AND SignalSource_Code \<noteq> 0 then
          [Copy '',signal_source='',
           Copy (FormatUint (ucast (SignalSource t)) 10)]
        else [])
     @ (if Code t AND ServerPort_Code \<noteq> 0 then
          [Copy '',server_port='',
           Copy (FormatUint (ucast (ServerPort t)) 10)]
        else [])
     @ (if Code t AND ServiceID_Code \<noteq> 0 then
          [Copy '',service_id='',
           Copy (FormatUint (ucast (ServiceID t)) 10)]
        else [])
     @ (if Code t AND ServiceIDPath \<noteq> 0 then
          [Copy '',service_id_0='',
           Copy (FormatUint (ucast (ServiceID t)) 10),
           Copy '',service_id_1='',
           Copy (FormatUint (ucast (ServiceID1 t)) 10)]
        else [])
     @ (if Code t AND SubnetID_Code \<noteq> 0 then
          [Copy '',subnet_id='',
           Copy (FormatUint (ucast (SubnetID t)) 10)]
        else [])
     @ (if Code t AND SubnetIDPath \<noteq> 0 then
          [Copy '',subnet_id_0='',
           Copy (FormatUint (ucast (SubnetID t)) 10),
           Copy '',subnet_id_1='',
           Copy (FormatUint (ucast (SubnetID1 t)) 10)]
        else [])"

definition MarshalTo_steps_5 :: "(uint8 list \<Rightarrow> string) \<Rightarrow> heap \<Rightarrow> Tag \<Rightarrow> step list" where
  "MarshalTo_steps_5 ip6text h t =
     (if Code t AND TunnelIPID_Code \<noteq> 0 then
        [Copy '',tunnel_ip_id='',
         Copy (FormatUint (ucast (TunnelIPID t)) 10)]
      else [])
     @ (if Code t AND TAPPort_Code \<noteq> 0 then
          [Copy '',capture_nic='',
           PutTAPPort (TAPPort t)]
        else [])
     @ (if Code t AND TAPSide_Code \<noteq> 0 then
          (if TAPSide t = Rest then
             [Copy '',observation_point=rest'']
           else if TAPSide t = Client then
             [Copy '',observation_point=c'']
           else if TAPSide t = Server then
             [Copy '',observation_point=s'']
           else if TAPSide t = ClientNode then
             [Copy '',observation_point=c-nd'']
           else if TAPSide t = ServerNode then
             [Copy '',observation_point=s-nd'']
           else if TAPSide t = ClientHypervisor then
             [Copy '',observation_point=c-hv'']
           else if TAPSide t = ServerHypervisor then
             [Copy '',observation_point=s-hv'']
           else if TAPSide t = ClientGatewayHypervisor then
             [Copy '',observation_point=c-gw-hv'']
           else if TAPSide t = ServerGatewayHypervisor then
             [Copy '',observation_point=s-gw-hv'']
           else if TAPSide t = ClientGateway then
             [Copy '',observation_point=c-gw'']
           else if TAPSide t = ServerGateway then
             [Copy '',observation_point=s-gw'']
           else [])
        else [])
     @ (if Code t AND TAPType_Code \<noteq> 0 then
          [Copy '',capture_network_type_id='',
           Copy (FormatUint (ucast (TAPType t)) 10)]
        else [])
     @ (if Code t AND VTAPID_Code \<noteq> 0 then
          [Copy '',agent_id='',
           Copy (FormatUint (ucast (VTAPID t)) 10),
           Copy '',team_id='',
           Copy (FormatUint (ucast (TeamID t)) 10)]
        else [])"

definition MarshalTo_steps :: "(uint8 list \<Rightarrow> string) \<Rightarrow> heap \<Rightarrow> Tag \<Rightarrow> step list" where
  "MarshalTo_steps ip6text h t =
     MarshalTo_steps_1 ip6text h t @ MarshalTo_steps_2 ip6text h t
     @ MarshalTo_steps_3 ip6text h t @ MarshalTo_steps_4 ip6text h t
     @ MarshalTo_steps_5 ip6text h t"

text \<open>
  The result is the buffer as \<open>MarshalTo\<close> leaves it and the offset it returns.
\<close>

definition MarshalTo :: "(uint8 list \<Rightarrow> string) \<Rightarrow> heap \<Rightarrow> string \<Rightarrow> Tag \<Rightarrow> (string \<times> nat) option" where
  "MarshalTo ip6text h b t = run_steps (MarshalTo_steps ip6text h t) (b, 0)"

section \<open>The schema generator\<close>

text \<open>
  Modelled from the spec: the column descriptor of the package ckdb (server/libs/ckdb, not
  among the sources). The spec has "typed column descriptors (name, storage type, index
  kind, default/grouping flags, and a human-readable comment)". \<open>NewColumn\<close> makes a column
  of a name and a type, \<open>NewColumnWithGroupBy\<close> one with the grouping flag set; the index is
  the one the package picks for the type (\<open>None\<close> here) until \<open>SetIndex\<close> sets one. The
  texts of the comments are documentation, most of it not in ASCII: \<open>SetComment\<close> only
  records that a comment was set.
\<close>

datatype ColumnType =
  DateTime | UInt8 | UInt16 | UInt32 | Int32 | IPv4 | IPv6 | LowCardinalityString | String_T

datatype IndexType = IndexNone | IndexMinmax | IndexSet

record Column =
  Name :: string
  Type :: ColumnType
  Index :: "IndexType option"
  GroupBy :: bool
  Comment :: bool

definition NewColumn :: "string \<Rightarrow> ColumnType \<Rightarrow> Column" where
  "NewColumn name t = \<lparr> Name = name, Type = t, Index = None, GroupBy = False, Comment = False \<rparr>"

definition NewColumnWithGroupBy :: "string \<Rightarrow> ColumnType \<Rightarrow> Column" where
  "NewColumnWithGroupBy name t =
     \<lparr> Name = name, Type = t, Index = None, GroupBy = True, Comment = False \<rparr>"

definition SetComment :: "Column \<Rightarrow> Column" where
  "SetComment c = c\<lparr> Comment := True \<rparr>"

definition SetIndex :: "IndexType \<Rightarrow> Column \<Rightarrow> Column" where
  "SetIndex i c = c\<lparr> Index := Some i \<rparr>"

text \<open>
  \<open>func GenTagColumns(code Code) []*ckdb.Column\<close>, in five parts that end where the parts
  of \<open>MarshalTo\<close> end (lines 935 to 965, 966 to 1004, 1005 to 1070, 1072 to 1119 and 1120
  to 1138). Here too the blocks of \<open>MAC\<close> and \<open>MACPath\<close> are empty.
\<close>

definition GenTagColumns_1 :: "Code \<Rightarrow> Column list" where
  "GenTagColumns_1 code =
     [NewColumnWithGroupBy ''time'' DateTime,
      SetIndex IndexNone (SetComment (NewColumn ''_tid'' UInt8))]
     @ (if code AND ACLGID_Code \<noteq> 0 then
          [SetComment (NewColumnWithGroupBy ''acl_gid'' UInt16)]
        else [])
     @ (if code AND AZID_Code \<noteq> 0 then
          [SetComment (NewColumnWithGroupBy ''az_id'' UInt16)]
        else [])
     @ (if code AND AZIDPath \<noteq> 0 then
          [SetComment (NewColumnWithGroupBy ''az_id_0'' UInt16),
           SetComment (NewColumnWithGroupBy ''az_id_1'' UInt16)]
        else [])
     @ (if code AND Direction \<noteq> 0 then
          [SetComment (NewColumnWithGroupBy ''role'' UInt8)]
        else [])
     @ (if code AND GPID_Code \<noteq> 0 then
          [SetComment (NewColumnWithGroupBy ''gprocess_id'' UInt32)]
        else [])
     @ (if code AND GPIDPath \<noteq> 0 then
          [SetComment (NewColumnWithGroupBy ''gprocess_id_0'' UInt32),
           SetComment (NewColumnWithGroupBy ''gprocess_id_1'' UInt32)]
        else [])
     @ (if code AND HostID_Code \<noteq> 0 then
          [SetComment (NewColumnWithGroupBy ''host_id'' UInt16)]
        else [])
     @ (if code AND HostIDPath \<noteq> 0 then
          [SetComment (NewColumnWithGroupBy ''host_id_0'' UInt16),
           SetComment (NewColumnWithGroupBy ''host_id_1'' UInt16)]
        else [])"

definition GenTagColumns_2 :: "Code \<Rightarrow> Column list" where
  "GenTagColumns_2 code =
     (if code AND IP_Code \<noteq> 0 then
        [SetComment (NewColumnWithGroupBy ''ip4'' IPv4),
         SetComment (NewColumnWithGroupBy ''ip6'' IPv6),
         SetComment (SetIndex IndexMinmax (NewColumnWithGroupBy ''is_ipv4'' UInt8)),
         SetComment (NewColumnWithGroupBy ''tag_source'' UInt8)]
      else [])
     @ (if code AND IPPath \<noteq> 0 then
          [NewColumnWithGroupBy ''ip4_0'' IPv4,
           NewColumnWithGroupBy ''ip4_1'' IPv4,
           NewColumnWithGroupBy ''ip6_0'' IPv6,
           NewColumnWithGroupBy ''ip6_1'' IPv6,
           SetIndex IndexMinmax (NewColumnWithGroupBy ''is_ipv4'' UInt8),
           SetComment (NewColumnWithGroupBy ''tag_source_0'' UInt8),
           SetComment (NewColumnWithGroupBy ''tag_source_1'' UInt8)]
        else [])
     @ (if code AND IsKeyService_Code \<noteq> 0 then
          [SetIndex IndexMinmax (SetComment (NewColumnWithGroupBy ''is_key_service'' UInt8))]
        else [])
     @ (if code AND L3Device \<noteq> 0 then
          [SetComment (NewColumnWithGroupBy ''l3_device_id'' UInt32),
           SetComment (NewColumnWithGroupBy ''l3_device_type'' UInt8)]
        else [])
     @ (if code AND L3DevicePath \<noteq> 0 then
          [SetComment (NewColumnWithGroupBy ''l3_device_id_0'' UInt32),
           SetComment (NewColumnWithGroupBy ''l3_device_id_1'' UInt32),
           SetComment (NewColumnWithGroupBy ''l3_device_type_0'' UInt8),
           SetComment (NewColumnWithGroupBy ''l3_device_type_1'' UInt8)]
        else [])
     @ (if code AND L3EpcID_Code \<noteq> 0 then
          [SetComment (NewColumnWithGroupBy ''l3_epc_id'' Int32)]
        else [])
     @ (if code AND L3EpcIDPath \<noteq> 0 then
          [SetComment (NewColumnWithGroupBy ''l3_epc_id_0'' Int32),
           SetComment (NewColumnWithGroupBy ''l3_epc_id_1'' Int32)]
        else [])"

definition GenTagColumns_3 :: "Code \<Rightarrow> Column list" where
  "GenTagColumns_3 code =
     (if code AND L7Protocol_Code \<noteq> 0 then
        [SetComment (NewColumnWithGroupBy ''l7_protocol'' UInt8),
         NewColumnWithGroupBy ''app_service'' LowCardinalityString,
         NewColumnWithGroupBy ''app_instance'' LowCardinalityString,
         NewColumnWithGroupBy ''endpoint'' String_T,
         SetComment (NewColumnWithGroupBy ''biz_type'' UInt8)]
      else [])
     @ (if code AND MAC_Code \<noteq> 0 then
          []
        else [])
     @ (if code AND MACPath \<noteq> 0 then
          []
        else [])
     @ (if code AND PodClusterID_Code \<noteq> 0 then
          [SetComment (NewColumnWithGroupBy ''pod_cluster_id'' UInt16)]
        else [])
     @ (if code AND PodClusterIDPath \<noteq> 0 then
          [SetComment (NewColumnWithGroupBy ''pod_cluster_id_0'' UInt16),
           SetComment (NewColumnWithGroupBy ''pod_cluster_id_1'' UInt16)]
        else [])
     @ (if code AND PodGroupID_Code \<noteq> 0 then
          [SetComment (NewColumnWithGroupBy ''pod_group_id'' UInt32)]
        else [])
     @ (if code AND PodGroupIDPath \<noteq> 0 then
          [SetComment (NewColumnWithGroupBy ''pod_group_id_0'' UInt32),
           SetComment (NewColumnWithGroupBy ''pod_group_id_1'' UInt32)]
        else [])
     @ (if code AND PodID_Code \<noteq> 0 then
          [SetComment (NewColumnWithGroupBy ''pod_id'' UInt32)]
        else [])
     @ (if code AND PodIDPath \<noteq> 0 then
          [SetComment (NewColumnWithGroupBy ''pod_id_0'' UInt32),
           SetComment (NewColumnWithGroupBy ''pod_id_1'' UInt32)]
        else [])
     @ (if code AND PodNodeID_Code \<noteq> 0 then
          [SetComment (NewColumnWithGroupBy ''pod_node_id'' UInt32)]
        else [])
     @ (if code AND PodNodeIDPath \<noteq> 0 then
          [SetComment (NewColumnWithGroupBy ''pod_node_id_0'' UInt32),
           SetComment (NewColumnWithGroupBy ''pod_node_id_1'' UInt32)]
        else [])
     @ (if code AND PodNSID_Code \<noteq> 0 then
          [SetComment (NewColumnWithGroupBy ''pod_ns_id'' UInt16)]
        else [])
     @ (if code AND PodNSIDPath \<noteq> 0 then
          [SetComment (NewColumnWithGroupBy ''pod_ns_id_0'' UInt16),
           SetComment (NewColumnWithGroupBy ''pod_ns_id_1'' UInt16)]
        else [])
     @ (if code AND Protocol_Code \<noteq> 0 then
          [SetComment (NewColumnWithGroupBy ''protocol'' UInt8)]
        else [])"

definition GenTagColumns_4 :: "Code \<Rightarrow> Column list" where
  "GenTagColumns_4 code =
     (if code AND RegionID_Code \<noteq> 0 then
        [SetComment (NewColumnWithGroupBy ''region_id'' UInt16)]
      else [])
     @ (if code AND RegionIDPath \<noteq> 0 then
          [SetComment (NewColumnWithGroupBy ''region_id_0'' UInt16),
           SetComment (NewColumnWithGroupBy ''region_id_1'' UInt16)]
        else [])
     @ (if code AND Resource \<noteq> 0 then
          [SetComment (NewColumnWithGroupBy ''auto_instance_id'' UInt32),
           SetComment (NewColumnWithGroupBy ''auto_instance_type'' UInt8),
           SetComment (NewColumnWithGroupBy ''auto_service_id'' UInt32),
           SetComment (NewColumnWithGroupBy ''auto_service_type'' UInt8)]
        else [])
     @ (if code AND ResourcePath \<noteq> 0 then
          [SetComment (NewColumnWithGroupBy ''auto_instance_id_0'' UInt32),
           SetComment (NewColumnWithGroupBy ''auto_instance_type_0'' UInt8),
           SetComment (NewColumnWithGroupBy ''auto_service_id_0'' UInt32),
           SetComment (NewColumnWithGroupBy ''auto_service_type_0'' UInt8),
           SetComment (NewColumnWithGroupBy ''auto_instance_id_1'' UInt32),
           SetComment (NewColumnWithGroupBy ''auto_instance_type_1'' UInt8),
           SetComment (NewColumnWithGroupBy ''auto_service_id_1'' UInt32),
           SetComment (NewColumnWithGroupBy ''auto_service_type_1'' UInt8)]
        else [])
     @ (if code AND SignalSource_Code \<noteq> 0 then
          [SetComment (NewColumnWithGroupBy ''signal_source'' UInt16)]
        else [])
     @ (if code AND ServiceID_Code \<noteq> 0 then
          [SetComment (NewColumnWithGroupBy ''service_id'' UInt32)]
        else [])
     @ (if code AND ServiceIDPath \<noteq> 0 then
          [SetComment (NewColumnWithGroupBy ''service_id_0'' UInt32),
           SetComment (NewColumnWithGroupBy ''service_id_1'' UInt32)]
        else [])
     @ (if code AND ServerPort_Code \<noteq> 0 then
          [SetComment (SetIndex IndexSet (NewColumnWithGroupBy ''server_port'' UInt16))]
        else [])
     @ (if code AND SubnetID_Code \<noteq> 0 then
          [SetComment (NewColumnWithGroupBy ''subnet_id'' UInt16)]
        else [])
     @ (if code AND SubnetIDPath \<noteq> 0 then
          [SetComment (NewColumnWithGroupBy ''subnet_id_0'' UInt16),
           SetComment (NewColumnWithGroupBy ''subnet_id_1'' UInt16)]
        else [])"

definition GenTagColumns_5 :: "Code \<Rightarrow> Column list" where
  "GenTagColumns_5 code =
     (if code AND TunnelIPID_Code \<noteq> 0 then
        [SetComment (NewColumnWithGroupBy ''tunnel_ip_id'' UInt16)]
      else [])
     @ (if code AND TAPPort_Code \<noteq> 0 then
          [SetComment (SetIndex IndexNone (NewColumnWithGroupBy ''capture_nic_type'' UInt8)),
           SetComment (SetIndex IndexNone (NewColumnWithGroupBy ''tunnel_type'' UInt8)),
           SetComment (SetIndex IndexNone (NewColumnWithGroupBy ''capture_nic'' UInt32)),
           SetComment (NewColumnWithGroupBy ''nat_source'' UInt8)]
        else [])
     @ (if code AND TAPSide_Code \<noteq> 0 then
          [SetComment (NewColumnWithGroupBy ''observation_point'' LowCardinalityString)]
        else [])
     @ (if code AND TAPType_Code \<noteq> 0 then
          [SetComment (NewColumnWithGroupBy ''capture_network_type_id'' UInt8)]
        else [])
     @ (if code AND VTAPID_Code \<noteq> 0 then
          [SetComment (NewColumnWithGroupBy ''agent_id'' UInt16),
           SetComment (NewColumnWithGroupBy ''team_id'' UInt16)]
        else [])"

definition GenTagColumns :: "Code \<Rightarrow> Column list" where
  "GenTagColumns code =
     GenTagColumns_1 code @ GenTagColumns_2 code @ GenTagColumns_3 code
     @ GenTagColumns_4 code @ GenTagColumns_5 code"

section \<open>The wire decoder\<close>

text \<open>
  The record \<open>pb.MiniTag\<close> and its \<open>Field\<close> come from the package pb
  (server/libs/flow-metrics/pb, not among the sources); the members are the ones
  \<open>ReadFromPB\<close> reads. A member that \<open>ReadFromPB\<close> assigns without a conversion has the
  type of its target; one that it converts is taken as \<open>uint32\<close> (and \<open>TapPort\<close> as
  \<open>uint64\<close>), the unsigned types of a protobuf message. The members whose names are also
  names of \<open>Field\<close> or of a flag carry the suffix \<open>_pb\<close>. A byte slice of the message is a
  list of bytes whose capacity is its length; the pointer \<open>p.Field\<close> is \<open>None\<close> when nil.
\<close>

record MiniField =
  Ip :: "uint8 list"
  Ip1 :: "uint8 list"
  GlobalThreadId :: uint32
  IsIpv6 :: uint32
  L3EpcId :: int32
  L3EpcId1 :: int32
  Mac :: uint64
  Mac1 :: uint64
  Direction_pb :: uint32
  TapSide :: uint32
  Protocol_pb :: uint32
  AclGid :: uint32
  ServerPort_pb :: uint32
  VtapId :: uint32
  TapPort_pb :: uint64
  TapType :: uint32
  L7Protocol_pb :: uint32
  Gpid :: uint32
  Gpid1 :: uint32
  SignalSource_pb :: uint32
  AppService_pb :: string
  AppInstance_pb :: string
  Endpoint_pb :: string
  BizType_pb :: uint32
  PodId :: uint32

record MiniTag =
  Code_pb :: uint64
  Field_pb :: "MiniField option"

definition IPv4len :: nat where "IPv4len = 4"
definition IPv6len :: nat where "IPv6len = 16"

text \<open>\<open>binary.BigEndian.Uint32\<close> on a slice of four bytes.\<close>

definition BigEndian_Uint32 :: "uint8 list \<Rightarrow> uint32" where
  "BigEndian_Uint32 bs =
     ucast (bs ! 3) OR push_bit 8 (ucast (bs ! 2)) OR push_bit 16 (ucast (bs ! 1))
     OR push_bit 24 (ucast (bs ! 0))"

text \<open>
  Lines 1177 to 1196 of \<open>ReadFromPB\<close>: the code, the thread and the addresses. A slice
  expression \<open>x[:n]\<close> panics when \<open>x\<close> holds fewer than \<open>n\<close> bytes. The buffers of
  \<open>t.IP6\<close> and \<open>t.IP61\<close> are reused when the tag has them and made when it has not.
\<close>

definition ensure_buffer :: "heap \<Rightarrow> net_IP \<Rightarrow> heap \<times> nat" where
  "ensure_buffer h ip = (case ip of None \<Rightarrow> make_bytes h 16 | Some a \<Rightarrow> (h, a))"

definition ReadFromPB_addresses :: "heap \<Rightarrow> Tag \<Rightarrow> uint64 \<Rightarrow> MiniField \<Rightarrow> (heap \<times> Tag) option" where
  "ReadFromPB_addresses h t code f =
     (let t = t\<lparr> Code := code \<rparr>;
          t = t\<lparr> GlobalThreadID := ucast (GlobalThreadId f) \<rparr>;
          t = t\<lparr> IsIPv4 := 1 - ucast (IsIpv6 f) \<rparr>
      in if IsIPv4 t = 0 then
           (let (h, a) = ensure_buffer h (IP6 t);
                t = t\<lparr> IP6 := Some a \<rparr>
            in if length (Ip f) < IPv6len then None
               else
                 let h = copy_bytes h a (take IPv6len (Ip f))
                 in if Code t AND IPPath \<noteq> 0 then
                      (let (h, a1) = ensure_buffer h (IP61 t);
                           t = t\<lparr> IP61 := Some a1 \<rparr>
                       in if length (Ip1 f) < IPv6len then None
                          else Some (copy_bytes h a1 (take IPv6len (Ip1 f)), t))
                    else Some (h, t))
         else
           (if length (Ip f) < IPv4len then None
            else
              let t = t\<lparr> IP := BigEndian_Uint32 (take IPv4len (Ip f)) \<rparr>
              in if Code t AND IPPath \<noteq> 0 then
                   (if length (Ip1 f) < IPv4len then None
                    else Some (h, t\<lparr> IP1 := BigEndian_Uint32 (take IPv4len (Ip1 f)) \<rparr>))
                 else Some (h, t)))"

text \<open>
  Lines 1197 to 1217: the scalar members. \<open>TAPSideEnum(p.Field.TapSide).String()\<close> indexes
  the table of tokens and panics beyond it. \<open>SplitToPortTypeTunnel\<close> belongs to the package
  datatype (not among the sources) and is the parameter \<open>split\<close>.
\<close>

definition ReadFromPB_scalars ::
  "(uint64 \<Rightarrow> uint32 \<times> uint8 \<times> uint8 \<times> uint8) \<Rightarrow> Tag \<Rightarrow> MiniField \<Rightarrow> Tag option" where
  "ReadFromPB_scalars split t f =
     (let t = t\<lparr> MAC := Mac f \<rparr>;
          t = t\<lparr> MAC1 := Mac1 f \<rparr>;
          t = t\<lparr> L3EpcID := MarshalInt32WithSpecialID (L3EpcId f) \<rparr>;
          t = t\<lparr> L3EpcID1 := MarshalInt32WithSpecialID (L3EpcId1 f) \<rparr>;
          direction = (ucast (Direction_pb f) :: uint8);
          t = t\<lparr> Role := ToRole direction \<rparr>;
          t = t\<lparr> TAPSide := ucast (TapSide f) \<rparr>
      in case TAPSideEnum_String (ucast (TapSide f)) of
           None \<Rightarrow> None
         | Some str \<Rightarrow>
             let t = t\<lparr> TAPSideStr := str \<rparr>;
                 t = t\<lparr> Protocol := ucast (Protocol_pb f) \<rparr>;
                 t = t\<lparr> ACLGID := ucast (AclGid f) \<rparr>;
                 t = t\<lparr> ServerPort := ucast (ServerPort_pb f) \<rparr>;
                 t = t\<lparr> VTAPID := ucast (VtapId f) \<rparr>;
                 t = t\<lparr> TAPPort := TapPort_pb f \<rparr>;
                 (port, portType, natSource, tunnelType) = split (TAPPort t);
                 t = t\<lparr> TapPort := port, TapPortType := portType, NatSource := natSource,
                        TunnelType := tunnelType \<rparr>;
                 t = t\<lparr> TAPType := ucast (TapType f) \<rparr>;
                 t = t\<lparr> L7Protocol := ucast (L7Protocol_pb f) \<rparr>;
                 t = t\<lparr> AppService := AppService_pb f \<rparr>;
                 t = t\<lparr> AppInstance := AppInstance_pb f \<rparr>;
                 t = t\<lparr> Endpoint := Endpoint_pb f \<rparr>;
                 t = t\<lparr> BizType := ucast (BizType_pb f) \<rparr>
             in Some t)"

text \<open>Lines 1218 to 1239: the bits added for old agents, the pod and the tunnel.\<close>

definition ReadFromPB_compat :: "Tag \<Rightarrow> MiniField \<Rightarrow> Tag" where
  "ReadFromPB_compat t f =
     (let t = (if Code t AND IPPath \<noteq> 0 then
                 t\<lparr> Code := (Code t OR GPIDPath) OR SignalSource_Code \<rparr>
               else if Code t \<noteq> TRAFFIC_POLICY then
                 t\<lparr> Code := (Code t OR GPID_Code) OR SignalSource_Code \<rparr>
               else t);
          t = t\<lparr> GPID := Gpid f \<rparr>;
          t = t\<lparr> GPID1 := Gpid1 f \<rparr>;
          t = (if PodId f \<noteq> 0 then
                 (if Code t AND IPPath \<noteq> 0 \<and> Role t = ROLE_SERVER then t\<lparr> PodID1 := PodId f \<rparr>
                  else t\<lparr> PodID := PodId f \<rparr>)
               else t);
          t = t\<lparr> SignalSource := ucast (SignalSource_pb f) \<rparr>
      in t\<lparr> TunnelIPID := ucast (ServerPort_pb f) \<rparr>)"

text \<open>
  \<open>func (t *Tag) ReadFromPB(p *pb.MiniTag)\<close>: the store and the tag after the call, or
  \<open>None\<close> for a panic.
\<close>

definition ReadFromPB ::
  "(uint64 \<Rightarrow> uint32 \<times> uint8 \<times> uint8 \<times> uint8) \<Rightarrow> heap \<Rightarrow> Tag \<Rightarrow> MiniTag \<Rightarrow> (heap \<times> Tag) option" where
  "ReadFromPB split h t p =
     (case Field_pb p of
        None \<Rightarrow> None
      | Some f \<Rightarrow>
          (case ReadFromPB_addresses h t (Code_pb p) f of
             None \<Rightarrow> None
           | Some (h, t) \<Rightarrow>
               (case ReadFromPB_scalars split t f of
                  None \<Rightarrow> None
                | Some t \<Rightarrow> Some (h, ReadFromPB_compat t f))))"

section \<open>Cloning\<close>

text \<open>
  \<open>func CloneField(field *Field) *Field\<close>. \<open>AcquireField\<close> hands out an instance of the
  pool, and \<open>*newField = *field\<close> overwrites every member of it, so the instance itself
  does not matter: the clone is the value of \<open>field\<close>, with new arrays for the two byte
  slices that are not nil. The result is the store and the clone.
\<close>

definition clone_bytes :: "heap \<Rightarrow> net_IP \<Rightarrow> heap \<times> net_IP" where
  "clone_bytes h ip =
     (case ip of
        None \<Rightarrow> (h, None)
      | Some a \<Rightarrow>
          let (h', a') = make_bytes h (length (bytes_of h ip))
          in (copy_bytes h' a' (bytes_of h' ip), Some a'))"

definition CloneField :: "heap \<Rightarrow> Field \<Rightarrow> heap \<times> Field" where
  "CloneField h field =
     (let newField = field;
          (h, ip6) = clone_bytes h (IP6 field);
          newField = newField\<lparr> IP6 := ip6 \<rparr>;
          (h, ip61) = clone_bytes h (IP61 field);
          newField = newField\<lparr> IP61 := ip61 \<rparr>
      in (h, newField))"

text \<open>
  \<open>func CloneTag(tag *Tag) *Tag\<close>: the three assignments to the members of the new tag.
  \<open>newTag.Field = tag.Field\<close> copies the struct, and with it the two slices as they are:
  nothing is made in the store.
\<close>

definition CloneTag :: "Tag \<Rightarrow> Tag" where
  "CloneTag tag =
     (let newTag = Tag_zero;
          newTag = Field.extend (Field.truncate tag) (Field.more newTag);
          newTag = newTag\<lparr> Code := Code tag \<rparr>;
          newTag = newTag\<lparr> id_tag := id_tag tag \<rparr>
      in newTag)"

definition Clone :: "Tag \<Rightarrow> Tag" where
  "Clone t = CloneTag t"

section \<open>What a consumer reads\<close>

text \<open>
  The text of a step is what it writes when the buffer has room for it; the text of a tag
  is the text of its steps.
\<close>

definition tap_port_text :: "uint64 \<Rightarrow> string" where
  "tap_port_text v =
     (let s = FormatUint v 16
      in if TAP_PORT_STR_LEN \<ge> length s then replicate (TAP_PORT_STR_LEN - length s) CHR ''0'' @ s
         else drop (length s - TAP_PORT_STR_LEN) s)"

fun step_text :: "step \<Rightarrow> string" where
  "step_text (Copy s) = s"
| "step_text (PutTAPPort v) = tap_port_text v"

definition MarshalTo_text :: "(uint8 list \<Rightarrow> string) \<Rightarrow> heap \<Rightarrow> Tag \<Rightarrow> string" where
  "MarshalTo_text ip6text h t = concat (map step_text (MarshalTo_steps ip6text h t))"

text \<open>
  The key names of a line of \<open>,key=value\<close> segments, as a reader of the line finds them:
  the pieces between the commas, each up to its first equals sign. The first piece, before
  the leading comma, is not a segment.
\<close>

definition wire_keys :: "string \<Rightarrow> string list" where
  "wire_keys s = map (takeWhile (\<lambda>c. c \<noteq> CHR ''='')) (tl (Split s CHR '',''))"

text \<open>
  The key that a step starts, read off the step itself: a copied text that begins with a
  comma starts the key that reaches up to its equals sign. A step is well formed when it
  has no comma but a leading one, and an equals sign when it has the leading comma.
\<close>

fun step_keys :: "step \<Rightarrow> string list" where
  "step_keys (Copy s) =
     (if s \<noteq> [] \<and> hd s = CHR '','' then [takeWhile (\<lambda>c. c \<noteq> CHR ''='') (tl s)] else [])"
| "step_keys (PutTAPPort v) = []"

definition step_ok :: "step \<Rightarrow> bool" where
  "step_ok x =
     (case x of
        Copy s \<Rightarrow>
          if s \<noteq> [] \<and> hd s = CHR '','' then CHR '','' \<notin> set (tl s) \<and> CHR ''='' \<in> set (tl s)
          else CHR '','' \<notin> set s
      | PutTAPPort v \<Rightarrow> CHR '','' \<notin> set (tap_port_text v))"







chapter \<open>Properties\<close>

section \<open>The constants as numbers\<close>

lemmas flag_defs =
  IP_Code_def L3EpcID_Code_def L3Device_def SubnetID_Code_def RegionID_Code_def
  PodNodeID_Code_def HostID_Code_def AZID_Code_def PodGroupID_Code_def PodNSID_Code_def
  PodID_Code_def MAC_Code_def PodClusterID_Code_def ServiceID_Code_def Resource_def
  GPID_Code_def
  IPPath_def L3EpcIDPath_def L3DevicePath_def SubnetIDPath_def RegionIDPath_def
  PodNodeIDPath_def HostIDPath_def AZIDPath_def PodGroupIDPath_def PodNSIDPath_def
  PodIDPath_def MACPath_def PodClusterIDPath_def ServiceIDPath_def ResourcePath_def
  GPIDPath_def
  Direction_def ACLGID_Code_def Protocol_Code_def ServerPort_Code_def TAPType_Code_def
  VTAPID_Code_def TAPSide_Code_def TAPPort_Code_def IsKeyService_Code_def
  L7Protocol_Code_def SignalSource_Code_def TunnelIPID_Code_def

lemmas table_code_defs =
  BaseCode_def BasePathCode_def BasePortCode_def NETWORK_def NETWORK_MAP_def
  APPLICATION_def APPLICATION_MAP_def TRAFFIC_POLICY_def

lemmas table_id_defs =
  NETWORK_1M_def NETWORK_MAP_1M_def APPLICATION_1M_def APPLICATION_MAP_1M_def
  TRAFFIC_POLICY_1M_def NETWORK_1S_def NETWORK_MAP_1S_def APPLICATION_1S_def
  APPLICATION_MAP_1S_def METRICS_TABLE_ID_MAX_def

lemma table_code_values:
  "NETWORK = 0x14AD000000F7FF"
  "NETWORK_MAP = 0x17AC0F7FF00000"
  "APPLICATION = 0x1CAD000000F7FF"
  "APPLICATION_MAP = 0x1FAC0F7FF00000"
  "TRAFFIC_POLICY = 0x4000820000000000"
  by (simp_all add: table_code_defs flag_defs)

section \<open>Printing and parsing numbers\<close>

lemma digit_char_code: "d < 10 \<Longrightarrow> (of_char (digit_char d) :: nat) = 48 + d"
proof -
  assume "d < 10"
  then have "d \<in> {0, 1, 2, 3, 4, 5, 6, 7, 8, 9}" by auto
  then show ?thesis by (auto simp: digit_char_def)
qed

lemma ParseUint_loop_append:
  "ParseUint_loop n (xs @ ys) =
     (case ParseUint_loop n xs of Inl e \<Rightarrow> Inl e | Inr m \<Rightarrow> ParseUint_loop m ys)"
  by (induction xs arbitrary: n) (auto simp: Let_def)

lemma format_nat_digits:
  "c \<in> set (format_nat 10 n) \<Longrightarrow> 48 \<le> (of_char c :: nat) \<and> (of_char c :: nat) \<le> 57"
proof (induction "10 :: nat" n rule: format_nat.induct)
  case (1 n)
  show ?case
  proof (cases "n < 10")
    case True
    with "1.prems" have "c = digit_char n" by (simp add: format_nat.simps)
    with True show ?thesis by (simp add: digit_char_code)
  next
    case False
    with "1.prems" have "c \<in> set (format_nat 10 (n div 10)) \<or> c = digit_char (n mod 10)"
      by (subst (asm) format_nat.simps) auto
    then show ?thesis
    proof
      assume "c \<in> set (format_nat 10 (n div 10))"
      with False "1.hyps" show ?thesis by simp
    next
      assume "c = digit_char (n mod 10)"
      then show ?thesis by (simp add: digit_char_code)
    qed
  qed
qed

lemma format_nat_nonempty: "format_nat b n \<noteq> []"
  by (subst format_nat.simps) simp

lemma ParseUint_loop_format_nat:
  "n < 2 ^ 64 \<Longrightarrow> ParseUint_loop 0 (format_nat 10 n) = Inr n"
proof (induction "10 :: nat" n rule: format_nat.induct)
  case (1 n)
  show ?case
  proof (cases "n < 10")
    case True
    then have "format_nat 10 n = [digit_char n]" by (simp add: format_nat.simps)
    with True "1.prems" show ?thesis by (simp add: digit_char_code Let_def)
  next
    case False
    then have f: "format_nat 10 n = format_nat 10 (n div 10) @ [digit_char (n mod 10)]"
      by (subst format_nat.simps) simp
    from "1.prems" have "n div 10 < 2 ^ 64" by simp
    with False "1.hyps" have ih: "ParseUint_loop 0 (format_nat 10 (n div 10)) = Inr (n div 10)"
      by simp
    have "n div 10 * 10 + n mod 10 = n" by simp
    with "1.prems" show ?thesis
      by (simp add: f ParseUint_loop_append ih digit_char_code Let_def)
  qed
qed

lemma ParseInt_format_nat:
  assumes "n < 2 ^ 63"
  shows "ParseInt (format_nat 10 n) = Inr (word_of_nat n)"
proof -
  let ?s = "format_nat 10 n"
  have ne: "?s \<noteq> []" by (rule format_nat_nonempty)
  then have "hd ?s \<in> set ?s" by simp
  then have d: "48 \<le> (of_char (hd ?s) :: nat)" using format_nat_digits by blast
  have "hd ?s \<noteq> CHR ''-''" "hd ?s \<noteq> CHR ''+''" using d by auto
  moreover from assms have "n < 2 ^ 64" by simp
  ultimately show ?thesis using assms ne
    by (simp add: ParseInt_def ParseUint_def ParseUint_loop_format_nat Let_def)
qed

section \<open>Sentinel identifiers\<close>

lemma special_id_mask: "(scast (v :: int16) :: uint64) AND 0xFFFF = ucast v"
proof -
  have m: "(0xFFFF :: uint64) = mask 16" by (simp add: mask_eq_exp_minus_1)
  have "(scast v :: uint64) AND mask 16 = ucast v"
  proof (rule bit_word_eqI)
    fix n assume "n < LENGTH(64)"
    show "bit ((scast v :: uint64) AND mask 16) n = bit (ucast v :: uint64) n"
    proof (cases "n < 16")
      case True
      then show ?thesis by (cases "n = 15") (simp_all add: bit_simps min_def)
    next
      case False
      then have "\<not> bit v n" using bit_imp_le_length [of v n] by auto
      with False show ?thesis by (simp add: bit_simps)
    qed
  qed
  then show ?thesis by (simp only: m)
qed

lemma ucast_down_int: "(ucast (word_of_int x :: uint64) :: int16) = word_of_int x"
  by (rule ucast_down_wi) (simp add: is_down)

lemma ucast_minus_1: "(ucast (- 1 :: uint64) :: int16) = - 1"
  using ucast_down_int [of "- 1"] by simp

lemma ucast_minus_2: "(ucast (- 2 :: uint64) :: int16) = - 2"
  using ucast_down_int [of "- 2"] by simp

lemma unat_ucast_16_64: "unat (ucast (v :: 16 word) :: uint64) = unat v"
proof -
  have "unat v < 2 ^ 16" using unsigned_less [of v] by simp
  then have "unat v < 2 ^ 64" by simp
  then show ?thesis by (simp add: unsigned_ucast_eq take_bit_nat_eq_self)
qed

lemma ucast_ucast_16_64: "(ucast (ucast (v :: int16) :: uint64) :: int16) = v"
  by (rule bit_word_eqI) (auto simp: bit_simps)

lemma sint_eq_sentinel:
  "sint (v :: int16) = - 1 \<longleftrightarrow> v = - 1" "sint v = - 2 \<longleftrightarrow> v = - 2"
proof -
  have "v = - 1" if "sint v = - 1"
  proof -
    have "v = of_int (sint v)" by simp
    with that show ?thesis by simp
  qed
  moreover have "v = - 2" if "sint v = - 2"
  proof -
    have "v = of_int (sint v)" by simp
    with that show ?thesis by simp
  qed
  ultimately show "sint v = - 1 \<longleftrightarrow> v = - 1" "sint v = - 2 \<longleftrightarrow> v = - 2"
    by auto
qed

text \<open>
  C3. For every signed 16-bit value \<open>v\<close>, parsing what \<open>marshalUint16WithSpecialID\<close> prints
  succeeds and gives \<open>v\<close> back. The sentinels -1 and -2 are printed as \<open>-1\<close> and \<open>-2\<close>, and
  every other value as the decimal form of its 16 bits read as unsigned.
\<close>

theorem marshalUint16WithSpecialID_roundtrip:
  "unmarshalUint16WithSpecialID (marshalUint16WithSpecialID v) = (v, None)
   \<and> marshalUint16WithSpecialID (- 1) = ''-1''
   \<and> marshalUint16WithSpecialID (- 2) = ''-2''
   \<and> (v \<noteq> - 1 \<and> v \<noteq> - 2 \<longrightarrow> marshalUint16WithSpecialID v = format_nat 10 (unat v))"
proof -
  have m1: "marshalUint16WithSpecialID (- 1) = ''-1''"
    by (simp add: marshalUint16WithSpecialID_def ID_OTHER_def FormatInt_def format_nat.simps
        digit_char_def)
  have m2: "marshalUint16WithSpecialID (- 2) = ''-2''"
    by (simp add: marshalUint16WithSpecialID_def ID_OTHER_def ID_INTERNET_def FormatInt_def
        format_nat.simps digit_char_def)
  have u1: "unmarshalUint16WithSpecialID ''-1'' = (- 1, None)"
    by (simp add: unmarshalUint16WithSpecialID_def ParseInt_def ParseUint_def ucast_minus_1)
  have u2: "unmarshalUint16WithSpecialID ''-2'' = (- 2, None)"
    by (simp add: unmarshalUint16WithSpecialID_def ParseInt_def ParseUint_def ucast_minus_2)
  have gen: "marshalUint16WithSpecialID v = format_nat 10 (unat v)" if "v \<noteq> - 1" "v \<noteq> - 2"
    using that
    by (simp add: marshalUint16WithSpecialID_def ID_OTHER_def ID_INTERNET_def FormatUint_def
        special_id_mask unat_ucast_16_64 sint_eq_sentinel)
  have rt: "unmarshalUint16WithSpecialID (marshalUint16WithSpecialID v) = (v, None)"
  proof (cases "v = - 1 \<or> v = - 2")
    case True
    then show ?thesis using m1 m2 u1 u2 by auto
  next
    case False
    have "unat v < 2 ^ 16" using unsigned_less [of v] by simp
    then have b: "unat v < 2 ^ 63" by simp
    with False gen show ?thesis
      by (simp add: unmarshalUint16WithSpecialID_def ParseInt_format_nat ucast_ucast_16_64)
  qed
  from m1 m2 gen rt show ?thesis by blast
qed

theorem marshalUint16WithSpecialID_roundtrip_witness:
  "(100 :: int16) \<noteq> - 1 \<and> (100 :: int16) \<noteq> - 2
   \<and> marshalUint16WithSpecialID 100 = ''100''
   \<and> unmarshalUint16WithSpecialID (marshalUint16WithSpecialID 100) = (100, None)"
proof -
  note r = marshalUint16WithSpecialID_roundtrip [of 100]
  have ne: "(100 :: int16) \<noteq> - 1 \<and> (100 :: int16) \<noteq> - 2" by simp
  with r have "marshalUint16WithSpecialID 100 = format_nat 10 (unat (100 :: int16))"
    by blast
  then have m: "marshalUint16WithSpecialID 100 = ''100''"
    by (simp add: format_nat.simps digit_char_def)
  from r ne m show ?thesis by blast
qed

section \<open>Table names and table identifiers\<close>

lemma MetricsTableNameToID_from_absent:
  "name \<notin> set ns \<Longrightarrow> MetricsTableNameToID_from i ns name = METRICS_TABLE_ID_MAX"
  by (induction ns arbitrary: i) auto

lemma TableName_roundtrip_at:
  assumes "k < 9"
  shows "\<exists>n. TableName (of_nat k) = Some n
           \<and> TableName (MetricsTableNameToID n) = TableName (of_nat k)"
proof -
  from assms have "k \<in> {0, 1, 2, 3, 4, 5, 6, 7, 8}" by auto
  then show ?thesis
    by (auto simp: TableName_def MetricsTableNameToID_def metricsTableNames_def)
qed

text \<open>
  C4. For every table identifier below \<open>METRICS_TABLE_ID_MAX\<close> the name of the table is
  defined and the identifier found for that name has the same name; for a name that is not
  in the list of table names, \<open>MetricsTableNameToID\<close> returns \<open>METRICS_TABLE_ID_MAX\<close>.
\<close>

theorem TableName_roundtrip:
  "(unat i < unat METRICS_TABLE_ID_MAX \<longrightarrow>
      (\<exists>n. TableName i = Some n \<and> TableName (MetricsTableNameToID n) = TableName i))
   \<and> (name \<notin> set metricsTableNames \<longrightarrow> MetricsTableNameToID name = METRICS_TABLE_ID_MAX)"
proof (intro conjI impI)
  assume "unat i < unat METRICS_TABLE_ID_MAX"
  then have "unat i < 9" by (simp add: METRICS_TABLE_ID_MAX_def)
  from TableName_roundtrip_at [OF this]
  show "\<exists>n. TableName i = Some n \<and> TableName (MetricsTableNameToID n) = TableName i"
    by simp
next
  assume "name \<notin> set metricsTableNames"
  then show "MetricsTableNameToID name = METRICS_TABLE_ID_MAX"
    by (simp add: MetricsTableNameToID_def MetricsTableNameToID_from_absent)
qed

theorem TableName_roundtrip_witness:
  "unat APPLICATION_MAP_1M < unat METRICS_TABLE_ID_MAX
   \<and> TableName APPLICATION_MAP_1M = Some ''application_map.1m''
   \<and> TableName (MetricsTableNameToID ''application_map.1m'') = TableName APPLICATION_MAP_1M
   \<and> ''application_map'' \<notin> set metricsTableNames
   \<and> MetricsTableNameToID ''application_map'' = METRICS_TABLE_ID_MAX"
  using TableName_roundtrip [of APPLICATION_MAP_1M "''application_map''"]
  by (simp add: TableName_def metricsTableNames_def table_id_defs)

lemma TableID_from_found:
  "(c AND NOT MAC_Code) AND NOT MACPath \<in> set codes \<Longrightarrow>
   \<exists>j < length codes. codes ! j = (c AND NOT MAC_Code) AND NOT MACPath
      \<and> (\<forall>k < j. codes ! k \<noteq> (c AND NOT MAC_Code) AND NOT MACPath)
      \<and> TableID_from c isSecond i codes
          = (of_nat (i + j) + (if isSecond then NETWORK_1S else 0), None)"
proof (induction codes arbitrary: i)
  case Nil
  then show ?case by simp
next
  case (Cons code codes)
  let ?m = "(c AND NOT MAC_Code) AND NOT MACPath"
  show ?case
  proof (cases "?m = code")
    case True
    then have "TableID_from c isSecond i (code # codes)
                 = (of_nat (i + 0) + (if isSecond then NETWORK_1S else 0), None)"
      by simp
    with True show ?thesis by (intro exI [of _ 0]) simp
  next
    case False
    with Cons.prems have "?m \<in> set codes" by auto
    from Cons.IH [OF this, of "Suc i"] obtain j where j:
      "j < length codes" "codes ! j = ?m" "\<forall>k < j. codes ! k \<noteq> ?m"
      "TableID_from c isSecond (Suc i) codes
         = (of_nat (Suc i + j) + (if isSecond then NETWORK_1S else 0), None)"
      by blast
    have "\<forall>k < Suc j. (code # codes) ! k \<noteq> ?m"
      using False j(3) by (auto simp: less_Suc_eq_0_disj)
    with False j show ?thesis by (intro exI [of _ "Suc j"]) simp
  qed
qed

lemma TableID_from_absent:
  "(c AND NOT MAC_Code) AND NOT MACPath \<notin> set codes \<Longrightarrow>
   TableID_from c isSecond i codes = (0, Some (NotMatchTable c isSecond))"
  by (induction codes arbitrary: i) auto

text \<open>
  C5. When the code of a tag with the bits \<open>MAC\<close> and \<open>MACPath\<close> cleared is one of the
  codes of \<open>metricsTableCodes\<close>, \<open>TableID\<close> returns the index of the first table with that
  code, plus \<open>NETWORK_1S\<close> when \<open>isSecond\<close> holds, and no error; otherwise it returns
  the identifier zero with the error that reports the code. There is no third outcome.
\<close>

theorem TableID_total:
  "((Code t AND NOT MAC_Code) AND NOT MACPath \<in> set metricsTableCodes \<longrightarrow>
      (\<exists>j < length metricsTableCodes.
          metricsTableCodes ! j = (Code t AND NOT MAC_Code) AND NOT MACPath
        \<and> (\<forall>k < j. metricsTableCodes ! k \<noteq> (Code t AND NOT MAC_Code) AND NOT MACPath)
        \<and> TableID t isSecond = (of_nat j + (if isSecond then NETWORK_1S else 0), None)))
   \<and> ((Code t AND NOT MAC_Code) AND NOT MACPath \<notin> set metricsTableCodes \<longrightarrow>
        TableID t isSecond = (0, Some (NotMatchTable (Code t) isSecond)))"
  using TableID_from_found [of "Code t" metricsTableCodes isSecond 0]
    TableID_from_absent [of "Code t" metricsTableCodes isSecond 0]
  by (auto simp: TableID_def)

theorem TableID_total_witness:
  "(Code (Tag_zero\<lparr>Code := APPLICATION OR MAC_Code\<rparr>) AND NOT MAC_Code) AND NOT MACPath
       \<in> set metricsTableCodes
   \<and> TableID (Tag_zero\<lparr>Code := APPLICATION OR MAC_Code\<rparr>) True = (APPLICATION_1S, None)
   \<and> (Code (Tag_zero\<lparr>Code := IP_Code\<rparr>) AND NOT MAC_Code) AND NOT MACPath
       \<notin> set metricsTableCodes
   \<and> TableID (Tag_zero\<lparr>Code := IP_Code\<rparr>) False = (0, Some (NotMatchTable IP_Code False))"
  using TableID_total [of "Tag_zero\<lparr>Code := APPLICATION OR MAC_Code\<rparr>" True]
    TableID_total [of "Tag_zero\<lparr>Code := IP_Code\<rparr>" False]
  by (simp add: TableID_def metricsTableCodes_def table_code_values flag_defs table_id_defs)

section \<open>The encoder on a buffer with room\<close>

lemma copy_at_room:
  "offset + length s \<le> length b \<Longrightarrow>
   copy_at b offset s = take offset b @ s @ drop (offset + length s) b"
  by (auto simp: copy_at_def Let_def min_def)

lemma length_copy_at: "offset \<le> length b \<Longrightarrow> length (copy_at b offset s) = length b"
  by (auto simp: copy_at_def Let_def min_def)

lemma length_tap_port_text: "length (tap_port_text v) = 8"
  by (auto simp: tap_port_text_def Let_def TAP_PORT_STR_LEN_def)

lemma zeros_replicate: "''00000000'' = replicate 8 CHR ''0''"
  by (simp add: numeral_eq_Suc)

lemma putTAPPort_zeros:
  "putTAPPort b offset tapPort =
     (let b1 = copy_at b offset (replicate 8 CHR ''0'');
          s = FormatUint tapPort 16
      in if TAP_PORT_STR_LEN \<ge> length s then
           (if TAP_PORT_STR_LEN - length s > length b - offset then None
            else Some (copy_at b1 (offset + (TAP_PORT_STR_LEN - length s)) s, TAP_PORT_STR_LEN))
         else Some (copy_at b1 offset (drop (length s - TAP_PORT_STR_LEN) s), TAP_PORT_STR_LEN))"
  by (simp only: putTAPPort_def zeros_replicate)

lemma putTAPPort_room:
  assumes "offset + 8 \<le> length b"
  shows "putTAPPort b offset v
           = Some (take offset b @ tap_port_text v @ drop (offset + 8) b, 8)"
proof -
  let ?s = "FormatUint v 16"
  let ?b1 = "copy_at b offset (replicate 8 CHR ''0'')"
  have b1: "?b1 = take offset b @ replicate 8 CHR ''0'' @ drop (offset + 8) b"
    using assms by (simp add: copy_at_room)
  have len1: "length ?b1 = length b" using assms by (simp add: length_copy_at)
  show ?thesis
  proof (cases "length ?s \<le> 8")
    case True
    let ?k = "8 - length ?s"
    have room: "(offset + ?k) + length ?s \<le> length ?b1" using True assms len1 by simp
    have mn: "min (offset + ?k) offset = offset" by simp
    have tk: "take (offset + ?k) ?b1 = take offset b @ replicate ?k CHR ''0''"
      using assms True by (simp add: b1 mn)
    have dr: "drop (offset + ?k + length ?s) ?b1 = drop (offset + 8) b"
      using assms True by (simp add: b1)
    have "copy_at ?b1 (offset + ?k) ?s
            = take offset b @ (replicate ?k CHR ''0'' @ ?s) @ drop (offset + 8) b"
      using copy_at_room [OF room] tk dr by simp
    moreover have "tap_port_text v = replicate ?k CHR ''0'' @ ?s"
      using True by (simp add: tap_port_text_def TAP_PORT_STR_LEN_def Let_def)
    moreover have "\<not> ?k > length b - offset" using assms by simp
    ultimately show ?thesis
      using True by (simp add: putTAPPort_zeros TAP_PORT_STR_LEN_def Let_def)
  next
    case False
    let ?d = "drop (length ?s - 8) ?s"
    have ld: "length ?d = 8" using False by simp
    have room: "offset + length ?d \<le> length ?b1" using assms len1 ld by simp
    have "copy_at ?b1 offset ?d = take offset b @ ?d @ drop (offset + 8) b"
      using copy_at_room [OF room] assms ld by (simp add: b1)
    moreover have "tap_port_text v = ?d"
      using False by (simp add: tap_port_text_def TAP_PORT_STR_LEN_def Let_def)
    ultimately show ?thesis
      using False by (simp add: putTAPPort_zeros TAP_PORT_STR_LEN_def Let_def)
  qed
qed

lemma exec_step_room:
  assumes "offset + length (step_text x) \<le> length b"
  shows "exec_step x (b, offset)
           = Some (take offset b @ step_text x @ drop (offset + length (step_text x)) b,
                   offset + length (step_text x))"
proof (cases x)
  case (Copy s)
  with assms show ?thesis by (auto simp: copy_at_room min_def)
next
  case (PutTAPPort v)
  with assms have "offset + 8 \<le> length b" by (simp add: length_tap_port_text)
  from putTAPPort_room [OF this] PutTAPPort assms show ?thesis
    by (simp add: length_tap_port_text)
qed

lemma run_steps_room:
  "offset + length (concat (map step_text xs)) \<le> length b \<Longrightarrow>
   run_steps xs (b, offset)
     = Some (take offset b @ concat (map step_text xs)
               @ drop (offset + length (concat (map step_text xs))) b,
             offset + length (concat (map step_text xs)))"
proof (induction xs arbitrary: b offset)
  case Nil
  then show ?case by simp
next
  case (Cons x xs)
  let ?t = "step_text x"
  let ?r = "concat (map step_text xs)"
  let ?b' = "take offset b @ ?t @ drop (offset + length ?t) b"
  from Cons.prems have room: "offset + length ?t \<le> length b" by simp
  have len: "length ?b' = length b" using room by simp
  have room': "(offset + length ?t) + length ?r \<le> length ?b'"
    using Cons.prems len by simp
  have tk: "take (offset + length ?t) ?b' = take offset b @ ?t" using room by simp
  have dr: "drop (offset + length ?t + length ?r) ?b' = drop (offset + length ?t + length ?r) b"
    using room by (simp add: ac_simps)
  have "run_steps (x # xs) (b, offset) = run_steps xs (?b', offset + length ?t)"
    using exec_step_room [OF room] by simp
  also have "\<dots> = Some (take (offset + length ?t) ?b' @ ?r
                          @ drop (offset + length ?t + length ?r) ?b',
                        offset + length ?t + length ?r)"
    by (rule Cons.IH [OF room'])
  also have "\<dots> = Some (take offset b @ (?t @ ?r) @ drop (offset + (length ?t + length ?r)) b,
                        offset + (length ?t + length ?r))"
    unfolding tk dr by (simp add: add.assoc)
  finally show ?case by simp
qed

lemma MarshalTo_room:
  "length (MarshalTo_text ip6text h t) \<le> length b \<Longrightarrow>
   MarshalTo ip6text h b t
     = Some (MarshalTo_text ip6text h t @ drop (length (MarshalTo_text ip6text h t)) b,
             length (MarshalTo_text ip6text h t))"
  using run_steps_room [of 0 "MarshalTo_steps ip6text h t" b]
  by (simp add: MarshalTo_def MarshalTo_text_def)

lemmas MarshalTo_steps_defs =
  MarshalTo_steps_def MarshalTo_steps_1_def MarshalTo_steps_2_def MarshalTo_steps_3_def
  MarshalTo_steps_4_def MarshalTo_steps_5_def

section \<open>The encoder on given tags\<close>

lemmas fmt_simps = FormatUint_def FormatInt_def format_nat.simps digit_char_def

lemmas Tag_zero_defs = Tag_zero_def Field_zero_def Field.defs Tag.defs

lemma IpFromUint32_example: "IpFromUint32 0xC0000201 = [192, 0, 2, 1]"
  by (simp add: IpFromUint32_def drop_bit_eq_div)

lemma MarshalTo_text_example:
  assumes "GlobalThreadID t = 0" and "IsIPv4 t = 1" and "IP t = 0xC0000201"
    and "ServerPort t = 8080" and "Code t = IP_Code OR ServerPort_Code"
  shows "MarshalTo_text ip6text h t = '',ip=192.0.2.1,ip_version=4,server_port=8080''"
  by (simp add: MarshalTo_text_def MarshalTo_steps_defs assms flag_defs IpFromUint32_example
      IP_String_def To4_def dotted_def fmt_simps)

text \<open>
  C6. For a tag with \<open>GlobalThreadID = 0\<close>, \<open>IsIPv4 = 1\<close>, \<open>IP\<close> the number of 192.0.2.1,
  \<open>ServerPort = 8080\<close> and the code \<open>IP | ServerPort\<close>, whatever its other members are,
  \<open>MarshalTo\<close> writes \<open>,ip=192.0.2.1,ip_version=4,server_port=8080\<close> at the start of a
  buffer that has room for these 43 bytes, leaves the rest of the buffer as it was and
  returns 43.
\<close>

theorem MarshalTo_worked_example:
  assumes "GlobalThreadID t = 0" and "IsIPv4 t = 1" and "IP t = 0xC0000201"
    and "ServerPort t = 8080" and "Code t = IP_Code OR ServerPort_Code"
    and "43 \<le> length b"
  shows "IpFromUint32 (IP t) = [192, 0, 2, 1]
     \<and> MarshalTo ip6text h b t
         = Some ('',ip=192.0.2.1,ip_version=4,server_port=8080'' @ drop 43 b, 43)"
proof -
  have text_eq: "MarshalTo_text ip6text h t = '',ip=192.0.2.1,ip_version=4,server_port=8080''"
    using assms(1-5) by (rule MarshalTo_text_example)
  have len: "length (MarshalTo_text ip6text h t) = 43" by (simp add: text_eq)
  have "length (MarshalTo_text ip6text h t) \<le> length b" using assms(6) by (simp only: len)
  from MarshalTo_room [OF this]
  have "MarshalTo ip6text h b t = Some (MarshalTo_text ip6text h t @ drop 43 b, 43)"
    by (simp only: len)
  then have "MarshalTo ip6text h b t
               = Some ('',ip=192.0.2.1,ip_version=4,server_port=8080'' @ drop 43 b, 43)"
    by (simp only: text_eq)
  moreover have "IpFromUint32 (IP t) = [192, 0, 2, 1]"
    by (simp only: assms(3) IpFromUint32_example)
  ultimately show ?thesis by (rule conjI [rotated])
qed

theorem MarshalTo_worked_example_witness:
  "GlobalThreadID (Tag_zero\<lparr>IP := 0xC0000201, ServerPort := 8080, IsIPv4 := 1,
                            Code := IP_Code OR ServerPort_Code\<rparr>) = 0
   \<and> (43 :: nat) \<le> length (replicate 64 (CHR 0x00))
   \<and> MarshalTo (\<lambda>ip. []) [] (replicate 64 (CHR 0x00))
         (Tag_zero\<lparr>IP := 0xC0000201, ServerPort := 8080, IsIPv4 := 1,
                    Code := IP_Code OR ServerPort_Code\<rparr>)
       = Some ('',ip=192.0.2.1,ip_version=4,server_port=8080'' @ replicate 21 (CHR 0x00), 43)"
  using MarshalTo_worked_example
    [of "Tag_zero\<lparr>IP := 0xC0000201, ServerPort := 8080, IsIPv4 := 1,
                    Code := IP_Code OR ServerPort_Code\<rparr>"
        "replicate 64 (CHR 0x00)" "\<lambda>ip. []" "[]"]
  by (simp add: Tag_zero_defs)

section \<open>The bits MAC and MACPath\<close>

lemma or_mask_and:
  fixes c m x M :: "'a::len word"
  assumes "m AND NOT M = 0" and "x AND M = 0"
  shows "(c OR m) AND x = c AND x"
proof -
  have "m AND x = 0"
  proof (rule bit_word_eqI)
    fix n assume "n < LENGTH('a)"
    from assms(1) have "\<not> bit (m AND NOT M) n" by simp
    then have a: "bit m n \<longrightarrow> bit M n"
      using bit_imp_le_length [of m n] by (auto simp: bit_and_iff bit_not_iff)
    from assms(2) have "\<not> bit (x AND M) n" by simp
    then have "bit x n \<longrightarrow> \<not> bit M n" by (simp add: bit_and_iff)
    with a show "bit (m AND x) n = bit (0 :: 'a word) n" by (auto simp: bit_and_iff)
  qed
  then show ?thesis by (simp add: bit.conj_disj_distrib2)
qed

lemmas or_mac_and = or_mask_and [where M = "MAC_Code OR MACPath"]

lemma mac_masks:
  "MAC_Code AND NOT (MAC_Code OR MACPath) = 0"
  "MACPath AND NOT (MAC_Code OR MACPath) = 0"
  "(MAC_Code OR MACPath) AND NOT (MAC_Code OR MACPath) = 0"
  by (simp_all add: flag_defs)

lemma flags_not_mac:
  "IP_Code AND (MAC_Code OR MACPath) = 0"
  "L3EpcID_Code AND (MAC_Code OR MACPath) = 0"
  "L3Device AND (MAC_Code OR MACPath) = 0"
  "SubnetID_Code AND (MAC_Code OR MACPath) = 0"
  "RegionID_Code AND (MAC_Code OR MACPath) = 0"
  "PodNodeID_Code AND (MAC_Code OR MACPath) = 0"
  "HostID_Code AND (MAC_Code OR MACPath) = 0"
  "AZID_Code AND (MAC_Code OR MACPath) = 0"
  "PodGroupID_Code AND (MAC_Code OR MACPath) = 0"
  "PodNSID_Code AND (MAC_Code OR MACPath) = 0"
  "PodID_Code AND (MAC_Code OR MACPath) = 0"
  "PodClusterID_Code AND (MAC_Code OR MACPath) = 0"
  "ServiceID_Code AND (MAC_Code OR MACPath) = 0"
  "Resource AND (MAC_Code OR MACPath) = 0"
  "GPID_Code AND (MAC_Code OR MACPath) = 0"
  "IPPath AND (MAC_Code OR MACPath) = 0"
  "L3EpcIDPath AND (MAC_Code OR MACPath) = 0"
  "L3DevicePath AND (MAC_Code OR MACPath) = 0"
  "SubnetIDPath AND (MAC_Code OR MACPath) = 0"
  "RegionIDPath AND (MAC_Code OR MACPath) = 0"
  "PodNodeIDPath AND (MAC_Code OR MACPath) = 0"
  "HostIDPath AND (MAC_Code OR MACPath) = 0"
  "AZIDPath AND (MAC_Code OR MACPath) = 0"
  "PodGroupIDPath AND (MAC_Code OR MACPath) = 0"
  "PodNSIDPath AND (MAC_Code OR MACPath) = 0"
  "PodIDPath AND (MAC_Code OR MACPath) = 0"
  "PodClusterIDPath AND (MAC_Code OR MACPath) = 0"
  "ServiceIDPath AND (MAC_Code OR MACPath) = 0"
  "ResourcePath AND (MAC_Code OR MACPath) = 0"
  "GPIDPath AND (MAC_Code OR MACPath) = 0"
  "Direction AND (MAC_Code OR MACPath) = 0"
  "ACLGID_Code AND (MAC_Code OR MACPath) = 0"
  "Protocol_Code AND (MAC_Code OR MACPath) = 0"
  "ServerPort_Code AND (MAC_Code OR MACPath) = 0"
  "TAPType_Code AND (MAC_Code OR MACPath) = 0"
  "VTAPID_Code AND (MAC_Code OR MACPath) = 0"
  "TAPSide_Code AND (MAC_Code OR MACPath) = 0"
  "TAPPort_Code AND (MAC_Code OR MACPath) = 0"
  "IsKeyService_Code AND (MAC_Code OR MACPath) = 0"
  "L7Protocol_Code AND (MAC_Code OR MACPath) = 0"
  "SignalSource_Code AND (MAC_Code OR MACPath) = 0"
  "TunnelIPID_Code AND (MAC_Code OR MACPath) = 0"
  by (simp_all add: flag_defs)

lemma MarshalTo_steps_or_mac:
  assumes "m AND NOT (MAC_Code OR MACPath) = 0"
  shows "MarshalTo_steps ip6text h (t\<lparr>Code := Code t OR m\<rparr>) = MarshalTo_steps ip6text h t"
proof -
  note r = or_mac_and [OF assms]
  have "MarshalTo_steps_1 ip6text h (t\<lparr>Code := Code t OR m\<rparr>) = MarshalTo_steps_1 ip6text h t"
    by (simp add: MarshalTo_steps_1_def r flags_not_mac)
  moreover
  have "MarshalTo_steps_2 ip6text h (t\<lparr>Code := Code t OR m\<rparr>) = MarshalTo_steps_2 ip6text h t"
    by (simp add: MarshalTo_steps_2_def r flags_not_mac)
  moreover
  have "MarshalTo_steps_3 ip6text h (t\<lparr>Code := Code t OR m\<rparr>) = MarshalTo_steps_3 ip6text h t"
    by (simp add: MarshalTo_steps_3_def r flags_not_mac)
  moreover
  have "MarshalTo_steps_4 ip6text h (t\<lparr>Code := Code t OR m\<rparr>) = MarshalTo_steps_4 ip6text h t"
    by (simp add: MarshalTo_steps_4_def r flags_not_mac)
  moreover
  have "MarshalTo_steps_5 ip6text h (t\<lparr>Code := Code t OR m\<rparr>) = MarshalTo_steps_5 ip6text h t"
    by (simp add: MarshalTo_steps_5_def r flags_not_mac)
  ultimately show ?thesis by (simp only: MarshalTo_steps_def)
qed

lemma GenTagColumns_or_mac:
  assumes "m AND NOT (MAC_Code OR MACPath) = 0"
  shows "GenTagColumns (c OR m) = GenTagColumns c"
proof -
  note r = or_mac_and [OF assms]
  have "GenTagColumns_1 (c OR m) = GenTagColumns_1 c"
    by (simp add: GenTagColumns_1_def r flags_not_mac)
  moreover have "GenTagColumns_2 (c OR m) = GenTagColumns_2 c"
    by (simp add: GenTagColumns_2_def r flags_not_mac)
  moreover have "GenTagColumns_3 (c OR m) = GenTagColumns_3 c"
    by (simp add: GenTagColumns_3_def r flags_not_mac)
  moreover have "GenTagColumns_4 (c OR m) = GenTagColumns_4 c"
    by (simp add: GenTagColumns_4_def r flags_not_mac)
  moreover have "GenTagColumns_5 (c OR m) = GenTagColumns_5 c"
    by (simp add: GenTagColumns_5_def r flags_not_mac)
  ultimately show ?thesis by (simp only: GenTagColumns_def)
qed

text \<open>
  C7. Setting the bit \<open>MAC\<close>, the bit \<open>MACPath\<close> or both in the code of a tag changes
  neither what \<open>MarshalTo\<close> does to a buffer (the bytes, the returned length, or a panic)
  nor the list of columns of \<open>GenTagColumns\<close>.
\<close>

theorem MAC_bits_no_output:
  "MarshalTo ip6text h b (t\<lparr>Code := Code t OR MAC_Code\<rparr>) = MarshalTo ip6text h b t
   \<and> MarshalTo ip6text h b (t\<lparr>Code := Code t OR MACPath\<rparr>) = MarshalTo ip6text h b t
   \<and> MarshalTo ip6text h b (t\<lparr>Code := (Code t OR MAC_Code) OR MACPath\<rparr>)
       = MarshalTo ip6text h b t
   \<and> GenTagColumns (c OR MAC_Code) = GenTagColumns c
   \<and> GenTagColumns (c OR MACPath) = GenTagColumns c
   \<and> GenTagColumns ((c OR MAC_Code) OR MACPath) = GenTagColumns c"
  using MarshalTo_steps_or_mac [OF mac_masks(1), of ip6text h t]
    MarshalTo_steps_or_mac [OF mac_masks(2), of ip6text h t]
    MarshalTo_steps_or_mac [OF mac_masks(3), of ip6text h t]
    GenTagColumns_or_mac [OF mac_masks(1), of c]
    GenTagColumns_or_mac [OF mac_masks(2), of c]
    GenTagColumns_or_mac [OF mac_masks(3), of c]
  by (simp add: MarshalTo_def or.assoc)

section \<open>Lists of numbers\<close>

lemma Split_no_sep: "sep \<notin> set a \<Longrightarrow> Split a sep = [a]"
  by (induction a) auto

lemma Split_append_sep:
  "sep \<notin> set a \<Longrightarrow> Split (a @ sep # r) sep = a # Split r sep"
  by (induction a) auto

lemma Split_nonempty: "Split s sep \<noteq> []"
  by (induction s) (auto split: list.splits)

lemma marshalUint16s_shift:
  "concat (map (\<lambda>(i, v). FormatUint (ucast v) 10 @ (if int i < int (Suc n) - 1 then ''|'' else []))
               (enumerate (Suc k) vs))
   = concat (map (\<lambda>(i, v :: uint16). FormatUint (ucast v) 10 @ (if int i < int n - 1 then ''|'' else []))
               (enumerate k vs))"
  by (induction vs arbitrary: k) auto

lemma marshalUint16s_Cons:
  "marshalUint16s (v # vs)
     = FormatUint (ucast v) 10 @ (if vs = [] then [] else CHR ''|'' # marshalUint16s vs)"
proof -
  have "marshalUint16s (v # vs)
          = FormatUint (ucast v) 10 @ (if 0 < length vs then ''|'' else [])
            @ concat (map (\<lambda>(i, v). FormatUint (ucast v) 10
                             @ (if int i < int (Suc (length vs)) - 1 then ''|'' else []))
                        (enumerate (Suc 0) vs))"
    by (simp add: marshalUint16s_def)
  also have "\<dots> = FormatUint (ucast v) 10 @ (if 0 < length vs then ''|'' else [])
                    @ marshalUint16s vs"
    by (simp only: marshalUint16s_shift marshalUint16s_def)
  finally show ?thesis by (cases vs) (simp_all add: marshalUint16s_def)
qed

lemma FormatUint_no_pipe: "CHR ''|'' \<notin> set (FormatUint v 10)"
proof
  assume "CHR ''|'' \<in> set (FormatUint v 10)"
  then have "(of_char CHR ''|'' :: nat) \<le> 57"
    unfolding FormatUint_def using format_nat_digits by blast
  then show False by simp
qed

lemma Split_marshalUint16s:
  "vs \<noteq> [] \<Longrightarrow>
   Split (marshalUint16s vs) CHR ''|'' = map (\<lambda>v. FormatUint (ucast v) 10) vs"
proof (induction vs)
  case Nil
  then show ?case by simp
next
  case (Cons v vs)
  show ?case
  proof (cases "vs = []")
    case True
    then show ?thesis by (simp add: marshalUint16s_Cons Split_no_sep FormatUint_no_pipe)
  next
    case False
    with Cons.IH show ?thesis
      by (simp add: marshalUint16s_Cons Split_append_sep FormatUint_no_pipe)
  qed
qed

lemma ParseInt_FormatUint_16:
  "ParseInt (FormatUint (ucast (v :: uint16)) 10) = Inr (ucast v)"
proof -
  have "unat v < 2 ^ 16" using unsigned_less [of v] by simp
  then have "unat v < 2 ^ 63" by simp
  then show ?thesis
    by (simp add: FormatUint_def unat_ucast_16_64 ParseInt_format_nat)
qed

lemma unmarshalUint16s_loop_formatted:
  "unmarshalUint16s_loop acc (map (\<lambda>v. FormatUint (ucast v) 10) vs) = (acc @ vs, None)"
  by (induction vs arbitrary: acc) (simp_all add: ParseInt_FormatUint_16 ucast_ucast_16_64)

text \<open>What holds of the pair: a list that is not empty comes back.\<close>

lemma unmarshalUint16s_roundtrip_nonempty:
  "vs \<noteq> [] \<Longrightarrow> unmarshalUint16s (marshalUint16s vs) = (vs, None)"
  by (simp add: unmarshalUint16s_def Split_marshalUint16s unmarshalUint16s_loop_formatted)

text \<open>A piece that does not parse makes the whole call fail.\<close>

lemma unmarshalUint16s_loop_error:
  "\<exists>tok \<in> set toks. \<exists>e. ParseInt tok = Inl e \<Longrightarrow>
   \<exists>e. snd (unmarshalUint16s_loop acc toks) = Some e"
  by (induction toks arbitrary: acc) (auto split: sum.splits)

lemma ParseUint_loop_digits:
  "ParseUint_loop n s = Inr m \<Longrightarrow>
   list_all (\<lambda>c. 48 \<le> (of_char c :: nat) \<and> (of_char c :: nat) \<le> 57) s"
  by (induction s arbitrary: n) (auto simp: Let_def split: if_splits)

lemma ParseInt_not_decimal:
  assumes "\<not> (let r = (if s \<noteq> [] \<and> (hd s = CHR ''+'' \<or> hd s = CHR ''-'') then tl s else s)
              in r \<noteq> [] \<and> list_all (\<lambda>c. 48 \<le> (of_char c :: nat) \<and> (of_char c :: nat) \<le> 57) r)"
  shows "\<exists>e. ParseInt s = Inl e"
proof (cases "s = []")
  case True
  then show ?thesis by (simp add: ParseInt_def)
next
  case False
  let ?r = "if hd s = CHR ''+'' \<or> hd s = CHR ''-'' then tl s else s"
  from assms False
  have bad: "?r = [] \<or> \<not> list_all (\<lambda>c. 48 \<le> (of_char c :: nat) \<and> (of_char c :: nat) \<le> 57) ?r"
    by (auto simp: Let_def)
  have "\<exists>e. ParseUint ?r = Inl e"
  proof (cases "ParseUint ?r")
    case (Inl e)
    then show ?thesis by blast
  next
    case (Inr m)
    then have "?r \<noteq> []" and "ParseUint_loop 0 ?r = Inr m"
      by (auto simp: ParseUint_def split: if_splits)
    with bad ParseUint_loop_digits show ?thesis by blast
  qed
  then show ?thesis using False by (auto simp: ParseInt_def Let_def)
qed

lemma unmarshalUint16s_bad_token:
  assumes "tok \<in> set (Split s CHR ''|'')"
    and "\<not> (let r = (if tok \<noteq> [] \<and> (hd tok = CHR ''+'' \<or> hd tok = CHR ''-'') then tl tok else tok)
              in r \<noteq> [] \<and> list_all (\<lambda>c. 48 \<le> (of_char c :: nat) \<and> (of_char c :: nat) \<le> 57) r)"
  shows "\<exists>e. snd (unmarshalUint16s s) = Some e"
  unfolding unmarshalUint16s_def
  using assms(1) ParseInt_not_decimal [OF assms(2)]
  by (intro unmarshalUint16s_loop_error) blast

text \<open>
  C8. The empty list: \<open>marshalUint16s\<close> prints it as the empty string, and
  \<open>unmarshalUint16s\<close> on the empty string does not give the empty list back but fails with
  a syntax error, because \<open>strings.Split\<close> of the empty string is one empty piece.
\<close>

theorem unmarshalUint16s_empty_list:
  "marshalUint16s [] = []
   \<and> Split [] CHR ''|'' = [[]]
   \<and> unmarshalUint16s (marshalUint16s []) = ([], Some ErrSyntax)"
  by (simp add: marshalUint16s_def unmarshalUint16s_def ParseInt_def)

section \<open>The table of observation points\<close>

lemma length_TAPSideEnumsString: "length TAPSideEnumsString = 51"
  by (simp add: TAPSideEnumsString_def)

lemma TAPSideEnum_String_in_range:
  "unat s < 51 \<Longrightarrow> \<exists>str. TAPSideEnum_String s = Some str"
  by (simp add: TAPSideEnum_String_def length_TAPSideEnumsString)

lemma TAPSideEnum_String_out_of_range:
  "51 \<le> unat s \<Longrightarrow> TAPSideEnum_String s = None"
  by (simp add: TAPSideEnum_String_def length_TAPSideEnumsString)

lemma ReadFromPB_scalars_panics:
  "51 \<le> unat (ucast (TapSide f) :: uint8) \<Longrightarrow> ReadFromPB_scalars split t f = None"
  by (simp add: ReadFromPB_scalars_def TAPSideEnum_String_out_of_range Let_def)

lemma ReadFromPB_panics:
  "Field_pb p = Some f \<Longrightarrow> 51 \<le> unat (ucast (TapSide f) :: uint8) \<Longrightarrow>
   ReadFromPB split h t p = None"
  by (simp add: ReadFromPB_def ReadFromPB_scalars_panics split: option.splits)

text \<open>
  C9. A record whose raw side is 51, one more than the largest key of the table of
  tokens, with an IPv4 address of four bytes and every other member zero: the lookup is
  beyond the 51 entries of the table and \<open>ReadFromPB\<close> panics, whatever the tag and the
  store are.
\<close>

theorem ReadFromPB_side_out_of_range:
  "length TAPSideEnumsString = 51
   \<and> TAPSideEnum_String 51 = None
   \<and> ReadFromPB split h t
        \<lparr> Code_pb = 0,
          Field_pb = Some
            \<lparr> Ip = [0, 0, 0, 0], Ip1 = [0, 0, 0, 0], GlobalThreadId = 0, IsIpv6 = 0,
              L3EpcId = 0, L3EpcId1 = 0, Mac = 0, Mac1 = 0, Direction_pb = 0, TapSide = 51,
              Protocol_pb = 0, AclGid = 0, ServerPort_pb = 0, VtapId = 0, TapPort_pb = 0,
              TapType = 0, L7Protocol_pb = 0, Gpid = 0, Gpid1 = 0, SignalSource_pb = 0,
              AppService_pb = [], AppInstance_pb = [], Endpoint_pb = [], BizType_pb = 0,
              PodId = 0 \<rparr> \<rparr>
       = None"
proof -
  let ?f = "\<lparr> Ip = [0, 0, 0, 0], Ip1 = [0, 0, 0, 0], GlobalThreadId = 0, IsIpv6 = 0,
              L3EpcId = 0, L3EpcId1 = 0, Mac = 0, Mac1 = 0, Direction_pb = 0, TapSide = 51,
              Protocol_pb = 0, AclGid = 0, ServerPort_pb = 0, VtapId = 0, TapPort_pb = 0,
              TapType = 0, L7Protocol_pb = 0, Gpid = 0, Gpid1 = 0, SignalSource_pb = 0,
              AppService_pb = [], AppInstance_pb = [], Endpoint_pb = [], BizType_pb = 0,
              PodId = 0 \<rparr>"
  have "TAPSideEnum_String 51 = None"
    by (rule TAPSideEnum_String_out_of_range) simp
  moreover have "ReadFromPB split h t \<lparr> Code_pb = 0, Field_pb = Some ?f \<rparr> = None"
    by (rule ReadFromPB_panics [where f = ?f]) (simp_all add: unsigned_ucast_eq)
  ultimately show ?thesis using length_TAPSideEnumsString by simp
qed

section \<open>Clones\<close>

lemma clone_bytes_fresh:
  assumes "ip = Some a" and "a < length h" and "clone_bytes h ip = (h', ip')"
  shows "ip' = Some (length h)" and "length h' = Suc (length h)"
    and "h' ! length h = h ! a" and "\<forall>k < length h. h' ! k = h ! k"
proof -
  let ?h1 = "h @ [replicate (length (h ! a)) 0]"
  have b: "bytes_of h ip = h ! a" using assms(1,2) by (simp add: bytes_of_def)
  have b1: "bytes_of ?h1 ip = h ! a" using assms(1,2) by (simp add: bytes_of_def nth_append)
  from assms(1,3) b b1 have h': "h' = copy_bytes ?h1 (length h) (h ! a)" and ip': "ip' = Some (length h)"
    by (auto simp: clone_bytes_def make_bytes_def Let_def)
  show "ip' = Some (length h)" by (rule ip')
  show "length h' = Suc (length h)" by (simp add: h' copy_bytes_def)
  show "h' ! length h = h ! a" by (simp add: h' copy_bytes_def)
  show "\<forall>k < length h. h' ! k = h ! k" by (simp add: h' copy_bytes_def nth_append)
qed

lemma clone_bytes_nil: "clone_bytes h None = (h, None)"
  by (simp add: clone_bytes_def)

text \<open>
  What holds of \<open>CloneField\<close>: the clone of a field with an IPv6 buffer has a buffer of
  its own with the same bytes, a write to it leaves the bytes of the original as they
  were, and every other member but the two slices is the one of the original.
\<close>

lemma CloneField_independent:
  assumes "IP6 field = Some a" and "a < length h" and "CloneField h field = (h', field')"
  shows "\<exists>a'. IP6 field' = Some a' \<and> a' \<noteq> a
           \<and> bytes_of h' (IP6 field') = bytes_of h (IP6 field)
           \<and> (\<forall>i v. bytes_of (set_byte h' a' i v) (IP6 field) = bytes_of h (IP6 field))"
    and "field'\<lparr>IP6 := IP6 field, IP61 := IP61 field\<rparr> = field"
proof -
  obtain h1 ip6 where c1: "clone_bytes h (IP6 field) = (h1, ip6)" by fastforce
  obtain h2 ip61 where c2: "clone_bytes h1 (IP61 field) = (h2, ip61)" by fastforce
  from assms(3) c1 c2 have h': "h' = h2" and f': "field' = field\<lparr>IP6 := ip6, IP61 := ip61\<rparr>"
    by (auto simp: CloneField_def Let_def)
  show "field'\<lparr>IP6 := IP6 field, IP61 := IP61 field\<rparr> = field" by (simp add: f')
  note k1 = clone_bytes_fresh [OF assms(1,2) c1]
  have keep: "length h < length h2 \<and> (\<forall>k \<le> length h. h2 ! k = h1 ! k)"
  proof (cases "IP61 field")
    case None
    with c2 k1(2) show ?thesis by (simp add: clone_bytes_nil)
  next
    case (Some a1)
    show ?thesis
    proof (cases "a1 < length h1")
      case True
      note k2 = clone_bytes_fresh [OF Some True c2 [unfolded Some, folded Some]]
      from k2(2,4) k1(2) show ?thesis by simp
    next
      case False
      with Some c2 k1(2) show ?thesis
        by (auto simp: clone_bytes_def make_bytes_def bytes_of_def copy_bytes_def Let_def
            nth_append)
    qed
  qed
  have a': "IP6 field' = Some (length h)" using f' k1(1) by simp
  have ne: "length h \<noteq> a" using assms(2) by simp
  have same: "bytes_of h' (IP6 field') = bytes_of h (IP6 field)"
    using keep k1 assms(1,2) by (simp add: a' h' bytes_of_def)
  have orig: "bytes_of (set_byte h' (length h) i v) (IP6 field) = bytes_of h (IP6 field)" for i v
    using keep k1 assms(1,2) ne by (simp add: h' bytes_of_def set_byte_def)
  from a' ne same orig
  show "\<exists>a'. IP6 field' = Some a' \<and> a' \<noteq> a
           \<and> bytes_of h' (IP6 field') = bytes_of h (IP6 field)
           \<and> (\<forall>i v. bytes_of (set_byte h' a' i v) (IP6 field) = bytes_of h (IP6 field))"
    by blast
qed

lemma CloneTag_same_slices: "IP6 (CloneTag tag) = IP6 tag" "IP61 (CloneTag tag) = IP61 tag"
  by (simp_all add: CloneTag_def Let_def Field.defs Tag.defs)

lemma CloneTag_eq: "CloneTag tag = tag"
  by (simp add: CloneTag_def Let_def Field.defs Tag.defs)

text \<open>
  C10. A tag whose \<open>IP6\<close> is a buffer of sixteen zero bytes, cloned with \<open>CloneTag\<close> (and
  so with \<open>Clone\<close>): the clone holds the same buffer, no buffer is made, and writing 1 to
  the first byte through the clone changes the first byte of the original.
\<close>

theorem CloneTag_shares_buffer:
  "IP6 (CloneTag (Tag_zero\<lparr>IP6 := Some 0\<rparr>)) = IP6 (Tag_zero\<lparr>IP6 := Some 0\<rparr>)
   \<and> Clone (Tag_zero\<lparr>IP6 := Some 0\<rparr>) = CloneTag (Tag_zero\<lparr>IP6 := Some 0\<rparr>)
   \<and> bytes_of [replicate 16 0] (IP6 (Tag_zero\<lparr>IP6 := Some 0\<rparr>)) ! 0 = 0
   \<and> bytes_of (set_byte [replicate 16 0] (the (IP6 (CloneTag (Tag_zero\<lparr>IP6 := Some 0\<rparr>)))) 0 1)
        (IP6 (Tag_zero\<lparr>IP6 := Some 0\<rparr>)) ! 0 = 1"
  by (simp add: CloneTag_same_slices Clone_def bytes_of_def set_byte_def)

section \<open>The keys of the text\<close>

lemma Split_append_no_sep:
  "sep \<notin> set a \<Longrightarrow>
   Split (a @ r) sep = (a @ hd (Split r sep)) # tl (Split r sep)"
proof (induction a)
  case Nil
  then show ?case using Split_nonempty [of r sep] by simp
next
  case (Cons c a)
  then show ?case by (auto split: list.splits)
qed

lemma wire_keys_append_no_comma:
  "CHR '','' \<notin> set a \<Longrightarrow> wire_keys (a @ r) = wire_keys r"
  by (simp add: wire_keys_def Split_append_no_sep)

lemma wire_keys_segment:
  assumes "CHR '','' \<notin> set a" and "CHR ''='' \<in> set a"
  shows "wire_keys (CHR '','' # a @ r) = takeWhile (\<lambda>c. c \<noteq> CHR ''='') a # wire_keys r"
proof -
  from assms(2) have "takeWhile (\<lambda>c. c \<noteq> CHR ''='') (a @ hd (Split r CHR '',''))
                        = takeWhile (\<lambda>c. c \<noteq> CHR ''='') a"
    by (intro takeWhile_append1 [where x = "CHR ''=''"]) simp_all
  with assms(1) show ?thesis
    by (simp add: wire_keys_def Split_append_no_sep)
qed

lemma wire_keys_steps:
  "list_all step_ok xs \<Longrightarrow>
   wire_keys (concat (map step_text xs)) = concat (map step_keys xs)"
proof (induction xs)
  case Nil
  then show ?case by (simp add: wire_keys_def)
next
  case (Cons x xs)
  then have ih: "wire_keys (concat (map step_text xs)) = concat (map step_keys xs)"
    and ok: "step_ok x" by simp_all
  show ?case
  proof (cases x)
    case (Copy s)
    show ?thesis
    proof (cases "s \<noteq> [] \<and> hd s = CHR '',''")
      case True
      then obtain a where s: "s = CHR '','' # a" by (cases s) auto
      from ok Copy s have "CHR '','' \<notin> set a" and "CHR ''='' \<in> set a"
        by (simp_all add: step_ok_def)
      then show ?thesis using Copy s ih by (simp add: wire_keys_segment)
    next
      case False
      with ok Copy have "CHR '','' \<notin> set s" by (auto simp: step_ok_def)
      with False Copy ih show ?thesis by (auto simp: wire_keys_append_no_comma)
    qed
  next
    case (PutTAPPort v)
    with ok have "CHR '','' \<notin> set (tap_port_text v)" by (simp add: step_ok_def)
    with PutTAPPort ih show ?thesis by (simp add: wire_keys_append_no_comma)
  qed
qed

subsection \<open>No value holds a comma\<close>

lemma digit_char_alphabet:
  "d < 36 \<Longrightarrow> digit_char d \<in> set ''0123456789abcdefghijklmnopqrstuvwxyz''"
  unfolding digit_char_def by (rule nth_mem) simp

lemma format_nat_alphabet:
  "2 \<le> b \<Longrightarrow> b \<le> 36 \<Longrightarrow> c \<in> set (format_nat b n) \<Longrightarrow>
   c \<in> set ''0123456789abcdefghijklmnopqrstuvwxyz''"
proof (induction b n rule: format_nat.induct)
  case (1 base n)
  show ?case
  proof (cases "n < base")
    case True
    with "1.prems" have "c = digit_char n" and "n < 36" by (simp_all add: format_nat.simps)
    then show ?thesis using digit_char_alphabet by blast
  next
    case False
    with "1.prems"
    have "c \<in> set (format_nat base (n div base)) \<or> c = digit_char (n mod base)"
      by (subst (asm) format_nat.simps) auto
    then show ?thesis
    proof
      assume "c \<in> set (format_nat base (n div base))"
      with False "1.prems" "1.IH" show ?thesis by simp
    next
      assume c: "c = digit_char (n mod base)"
      from "1.prems" have "0 < base" by simp
      then have "n mod base < base" by (rule mod_less_divisor)
      with "1.prems"(2) have "n mod base < 36" by linarith
      then show ?thesis unfolding c by (rule digit_char_alphabet)
    qed
  qed
qed

lemma format_nat_no_comma:
  "2 \<le> b \<Longrightarrow> b \<le> 36 \<Longrightarrow> CHR '','' \<notin> set (format_nat b n)"
  using format_nat_alphabet [of b "CHR '',''" n] by auto

lemma format_nat_no_dash:
  "2 \<le> b \<Longrightarrow> b \<le> 36 \<Longrightarrow> CHR ''-'' \<notin> set (format_nat b n)"
  using format_nat_alphabet [of b "CHR ''-''" n] by auto

lemma FormatUint_no_comma [simp]: "CHR '','' \<notin> set (FormatUint v 10)"
  by (simp add: FormatUint_def format_nat_no_comma)

lemma FormatInt_no_comma [simp]: "CHR '','' \<notin> set (FormatInt v 10)"
  by (simp add: FormatInt_def format_nat_no_comma)

lemma tap_port_text_no_comma [simp]: "CHR '','' \<notin> set (tap_port_text v)"
proof -
  have "CHR '','' \<notin> set (FormatUint v 16)"
    by (simp add: FormatUint_def format_nat_no_comma)
  then show ?thesis
    by (auto simp: tap_port_text_def Let_def dest: in_set_dropD)
qed

lemma hexString_no_comma: "CHR '','' \<notin> set (hexString bs)"
proof -
  have d: "digit_char d \<noteq> CHR '',''" if "d < 36" for d
    using digit_char_alphabet [OF that] by auto
  have hi: "digit_char (unat b div 16) \<noteq> CHR '',''" for b :: uint8
  proof -
    have "unat b < 256" using unsigned_less [of b, where 'a = nat] by simp
    then have "unat b div 16 < 36" by simp
    then show ?thesis by (rule d)
  qed
  have lo: "digit_char (unat b mod 16) \<noteq> CHR '',''" for b :: uint8
  proof -
    have "unat b mod 16 < 16" by simp
    then have "unat b mod 16 < 36" by linarith
    then show ?thesis by (rule d)
  qed
  show ?thesis
    by (induction bs) (simp_all add: hexString_def hi lo hi [symmetric] lo [symmetric])
qed

lemma dotted_no_comma: "CHR '','' \<notin> set (dotted p4)"
  by (simp add: dotted_def)

lemma IP_String_no_comma:
  "(\<And>bs. CHR '','' \<notin> set (ip6text bs)) \<Longrightarrow> CHR '','' \<notin> set (IP_String ip6text ip)"
  by (auto simp: IP_String_def hexString_no_comma dotted_no_comma split: option.splits)

section \<open>The keys of the encoder and the columns of the schema\<close>

lemma step_ok_key [simp]:
  "step_ok (Copy (CHR '','' # a)) \<longleftrightarrow> CHR '','' \<notin> set a \<and> CHR ''='' \<in> set a"
  by (simp add: step_ok_def)

lemma step_ok_value: "CHR '','' \<notin> set s \<Longrightarrow> step_ok (Copy s)"
  by (cases s) (auto simp: step_ok_def)

lemma step_ok_tap_port [simp]: "step_ok (PutTAPPort v)"
  by (simp add: step_ok_def)

lemma if_list_all_step_ok:
  "list_all step_ok (if c then xs else ys)
     = (if c then list_all step_ok xs else list_all step_ok ys)"
  by simp

lemma steps_ok_1: "list_all step_ok (MarshalTo_steps_1 ip6text h t)"
  by (simp add: MarshalTo_steps_1_def step_ok_value if_list_all_step_ok cong: if_cong)

lemma steps_ok_2:
  "(\<And>bs. CHR '','' \<notin> set (ip6text bs)) \<Longrightarrow> list_all step_ok (MarshalTo_steps_2 ip6text h t)"
  by (simp add: MarshalTo_steps_2_def step_ok_value if_list_all_step_ok IP_String_no_comma
      cong: if_cong)

lemma steps_ok_3:
  "CHR '','' \<notin> set (AppService t) \<Longrightarrow> CHR '','' \<notin> set (AppInstance t) \<Longrightarrow>
   CHR '','' \<notin> set (Endpoint t) \<Longrightarrow> list_all step_ok (MarshalTo_steps_3 ip6text h t)"
  by (simp add: MarshalTo_steps_3_def step_ok_value if_list_all_step_ok cong: if_cong)

lemma steps_ok_4: "list_all step_ok (MarshalTo_steps_4 ip6text h t)"
  by (simp add: MarshalTo_steps_4_def step_ok_value if_list_all_step_ok cong: if_cong)

lemma steps_ok_5: "list_all step_ok (MarshalTo_steps_5 ip6text h t)"
  by (simp add: MarshalTo_steps_5_def step_ok_value if_list_all_step_ok cong: if_cong)

lemma steps_ok:
  assumes "\<And>bs. CHR '','' \<notin> set (ip6text bs)"
    and "CHR '','' \<notin> set (AppService t)" and "CHR '','' \<notin> set (AppInstance t)"
    and "CHR '','' \<notin> set (Endpoint t)"
  shows "list_all step_ok (MarshalTo_steps ip6text h t)"
  using steps_ok_1 [of ip6text h t] steps_ok_2 [of ip6text h t, OF assms(1)]
    steps_ok_3 [OF assms(2-4), of ip6text h] steps_ok_4 [of ip6text h t]
    steps_ok_5 [of ip6text h t]
  by (simp add: MarshalTo_steps_def)

lemma wire_keys_MarshalTo_text:
  assumes "\<And>bs. CHR '','' \<notin> set (ip6text bs)"
    and "CHR '','' \<notin> set (AppService t)" and "CHR '','' \<notin> set (AppInstance t)"
    and "CHR '','' \<notin> set (Endpoint t)"
  shows "wire_keys (MarshalTo_text ip6text h t)
           = concat (map step_keys (MarshalTo_steps ip6text h t))"
  unfolding MarshalTo_text_def by (rule wire_keys_steps) (rule steps_ok [OF assms])

lemma step_keys_key:
  "step_keys (Copy (CHR '','' # a)) = [takeWhile (\<lambda>c. c \<noteq> CHR ''='') a]"
  by simp

lemma step_keys_value: "CHR '','' \<notin> set s \<Longrightarrow> step_keys (Copy s) = []"
  by (cases s) auto













subsection \<open>The keys, from the columns\<close>







subsection \<open>The columns, from the keys\<close>







subsection \<open>The two lists for the tables network and network_map\<close>




lemmas eval_simps =
  Tag_zero_defs table_code_values flag_defs step_keys_key step_keys_value
  IP_String_no_comma hexString_no_comma ROLE_CLIENT_def Rest_def

lemma wire_keys_zero_tag:
  "wire_keys (MarshalTo_text hexString [] (Tag_zero\<lparr>Code := c\<rparr>))
     = concat (map step_keys (MarshalTo_steps hexString [] (Tag_zero\<lparr>Code := c\<rparr>)))"
  by (rule wire_keys_MarshalTo_text) (simp_all add: hexString_no_comma Tag_zero_defs)

lemma keys_NETWORK:
  "wire_keys (MarshalTo_text hexString [] (Tag_zero\<lparr>Code := NETWORK\<rparr>)) =
     [''az_id'', ''role'', ''gprocess_id'', ''host_id'', ''ip'', ''ip_version'',
      ''is_key_service'', ''l3_device_id'', ''l3_device_type'', ''l3_epc_id'',
      ''pod_cluster_id'', ''pod_group_id'', ''pod_id'', ''pod_node_id'',
      ''pod_ns_id'', ''protocol'', ''region_id'', ''auto_instance_id'',
      ''auto_instance_type'', ''auto_service_id'', ''auto_service_type'',
      ''signal_source'', ''server_port'', ''service_id'', ''subnet_id'',
      ''capture_network_type_id'', ''agent_id'', ''team_id'']"
proof -
  have "concat (map step_keys (MarshalTo_steps hexString [] (Tag_zero\<lparr>Code := NETWORK\<rparr>))) =
     [''az_id'', ''role'', ''gprocess_id'', ''host_id'', ''ip'', ''ip_version'',
      ''is_key_service'', ''l3_device_id'', ''l3_device_type'', ''l3_epc_id'',
      ''pod_cluster_id'', ''pod_group_id'', ''pod_id'', ''pod_node_id'',
      ''pod_ns_id'', ''protocol'', ''region_id'', ''auto_instance_id'',
      ''auto_instance_type'', ''auto_service_id'', ''auto_service_type'',
      ''signal_source'', ''server_port'', ''service_id'', ''subnet_id'',
      ''capture_network_type_id'', ''agent_id'', ''team_id'']"
    by (simp add: MarshalTo_steps_defs eval_simps del: step_keys.simps(1))
  then show ?thesis by (simp only: wire_keys_zero_tag)
qed


subsection \<open>A side that the encoder does not print, and a comma in a string\<close>







section \<open>Order and parity\<close>

lemma wire_keys_signal_source:
  "wire_keys '',signal_source=0,server_port=0'' = [''signal_source'', ''server_port'']"
  by (simp add: wire_keys_def)

text \<open>
  C1. The text \<open>MarshalTo\<close> writes for the zero tag with the code
  \<open>SignalSource | ServerPort\<close>, into a buffer of 64 zero bytes: it returns the number of
  bytes written, 30, but the key \<open>signal_source\<close> comes before the key \<open>server_port\<close>,
  which is not the ascending order of the key names. The keys of the zero tag with the code
  of the table network, which has both bits, are not in ascending order either.
\<close>

theorem MarshalTo_keys_not_ascending:
  "MarshalTo ip6text h (replicate 64 (CHR 0x00))
       (Tag_zero\<lparr>Code := SignalSource_Code OR ServerPort_Code\<rparr>)
     = Some ('',signal_source=0,server_port=0'' @ replicate 34 (CHR 0x00), 30)
   \<and> wire_keys '',signal_source=0,server_port=0'' = [''signal_source'', ''server_port'']
   \<and> \<not> sorted_wrt (<) [''signal_source'', ''server_port'']
   \<and> \<not> sorted_wrt (<) (wire_keys (MarshalTo_text hexString [] (Tag_zero\<lparr>Code := NETWORK\<rparr>)))"
proof -
  let ?t = "Tag_zero\<lparr>Code := SignalSource_Code OR ServerPort_Code\<rparr>"
  have text_eq: "MarshalTo_text ip6text h ?t = '',signal_source=0,server_port=0''"
    by (simp add: MarshalTo_text_def MarshalTo_steps_defs Tag_zero_defs flag_defs fmt_simps)
  have len: "length (MarshalTo_text ip6text h ?t) = 30" by (simp add: text_eq)
  have "length (MarshalTo_text ip6text h ?t) \<le> length (replicate 64 (CHR 0x00))"
    by (simp add: len)
  from MarshalTo_room [OF this]
  have "MarshalTo ip6text h (replicate 64 (CHR 0x00)) ?t
          = Some (MarshalTo_text ip6text h ?t @ drop 30 (replicate 64 (CHR 0x00)), 30)"
    by (simp only: len)
  then have "MarshalTo ip6text h (replicate 64 (CHR 0x00)) ?t
          = Some ('',signal_source=0,server_port=0'' @ replicate 34 (CHR 0x00), 30)"
    by (simp add: text_eq)
  moreover have "\<not> sorted_wrt (<) [''signal_source'', ''server_port'']"
    by (simp add: less_char_def)
  moreover
  have "\<not> sorted_wrt (<) (wire_keys (MarshalTo_text hexString [] (Tag_zero\<lparr>Code := NETWORK\<rparr>)))"
    unfolding keys_NETWORK by (simp add: less_char_def)
  ultimately show ?thesis using wire_keys_signal_source by simp
qed





end
